theory Spec2Isabelle
  imports Complex_Main
begin

section \<open>The image labeler of \<open>main.py\<close>\<close>

text \<open>
  The program is one class, \<open>ImageLabeler\<close>, a Qt main window whose methods are event
  handlers. The model keeps the attributes the handlers read and write in a record, makes
  every handler a function from the record to the new record, and makes every exception a
  value: a handler returns \<open>Inr s'\<close> when it returns, and \<open>Inl (e, s')\<close> when it raises
  \<open>e\<close>, where \<open>s'\<close> holds the assignments made before the raise.

  What is modelled of the libraries:
  \<^item> a \<open>QPoint\<close> is its pair of coordinates, a \<open>QPixmap\<close> its width and height; an
    attribute that holds \<open>None\<close> or a pixmap is an \<open>option\<close>, and a pixmap object is
    truthy;
  \<^item> a Python \<open>float\<close> and an element of a NumPy \<open>float64\<close> array are binary64 numbers,
    with the rounding of every operation written out; \<open>QPoint(a, b)\<close> called with floats
    converts them as \<open>int()\<close> does, by truncation toward zero;
  \<^item> a \<open>str\<close> read from the matrix file is the list of its code points;
  \<^item> the geometry that Qt manages (size of the image label, scroll bar values) and the
    size of the pixmap that \<open>QPixmap.scaled\<close> returns are inputs of the handlers.
\<close>

subsection \<open>Values\<close>

type_synonym QPoint = "int \<times> int"

type_synonym QPixmap = "int \<times> int"

datatype error = AttributeError | ZeroDivisionError | ValueError

datatype MouseButton = LeftButton | RightButton | MiddleButton | NoButton

record QMouseEvent =
  ev_pos :: QPoint
  ev_button :: MouseButton

text \<open>The widget values the handlers read: \<open>imageLabel.width()\<close>, \<open>imageLabel.height()\<close>,
  \<open>scrollArea.horizontalScrollBar().value()\<close> and \<open>scrollArea.verticalScrollBar().value()\<close>.\<close>

record widgets =
  imageLabel_width :: int
  imageLabel_height :: int
  h_scroll :: int
  v_scroll :: int

record 'a ndarray =
  shape :: "nat list"
  flat :: "'a list"

record ImageLabeler =
  meta_img :: "nat ndarray option"
  original_img_size :: "QPixmap option"
  original_img :: "QPixmap option"
  scaled_img :: "QPixmap option"
  current_scale :: rat
  start_point :: QPoint
  end_point :: QPoint
  is_drawing :: bool
  rectangles :: "(QPoint \<times> QPoint) list"
  min_rect_area :: int
  messageText :: "string list"
  recordText :: string
  mousePosLabel :: string
  scaleValueLabel :: string

text \<open>\<open>__init__\<close> and the texts \<open>initUI\<close> gives the labels.\<close>

definition init :: ImageLabeler where
  "init = \<lparr> meta_img = None, original_img_size = None, original_img = None,
     scaled_img = None, current_scale = 1, start_point = (0, 0), end_point = (0, 0),
     is_drawing = False, rectangles = [], min_rect_area = 10, messageText = [],
     recordText = [], mousePosLabel = ''Mouse Pos:'', scaleValueLabel = ''100%'' \<rparr>"

subsection \<open>Formatting integers\<close>

text \<open>\<open>str\<close> on an \<open>int\<close>, as the f-strings apply it.\<close>

fun str_nat :: "nat \<Rightarrow> string" where
  "str_nat n = (if n < 10 then [''0123456789'' ! n]
     else str_nat (n div 10) @ [''0123456789'' ! (n mod 10)])"

declare str_nat.simps [simp del]

definition str_int :: "int \<Rightarrow> string" where
  "str_int i = (if i < 0 then CHR ''-'' # str_nat (nat (- i)) else str_nat (nat i))"

subsection \<open>Floating point\<close>

text \<open>A binary64 number has a significand of 53 bits, and every operation returns the
  exact result rounded to the nearest such number, a tie going to the even significand.
  \<open>bit_length k\<close> is Python's \<open>k.bit_length()\<close> for \<open>k > 0\<close>; \<open>ilog2 q\<close> is the exponent
  \<open>e\<close> with \<open>2 ^ e \<le> q < 2 ^ (e + 1)\<close> for \<open>q > 0\<close>; \<open>round_to e q\<close> is the multiple of
  \<open>2 ^ e\<close> nearest to \<open>q\<close>.\<close>

function bit_length :: "int \<Rightarrow> int" where
  "bit_length k = (if k \<le> 0 then 0 else 1 + bit_length (k div 2))"
  by pat_completeness auto

termination
  by (relation "measure nat") auto

declare bit_length.simps [simp del]

definition pow2 :: "int \<Rightarrow> rat" where
  "pow2 e = (if 0 \<le> e then 2 ^ nat e else 1 / 2 ^ nat (- e))"

definition ilog2 :: "rat \<Rightarrow> int" where
  "ilog2 q = (if 1 \<le> q then bit_length \<lfloor>q\<rfloor> - 1 else - bit_length (\<lceil>1 / q\<rceil> - 1))"

definition round_half_even :: "rat \<Rightarrow> int" where
  "round_half_even q =
     (let f = \<lfloor>q\<rfloor>; d = q - of_int f
      in if d < 1 / 2 then f else if 1 / 2 < d then f + 1 else if even f then f else f + 1)"

definition round_to :: "int \<Rightarrow> rat \<Rightarrow> rat" where
  "round_to e q = of_int (round_half_even (q / pow2 e)) * pow2 e"

text \<open>The rounding of a Python \<open>float\<close> operation on the coordinates. The integers of Qt
  (coordinates, sizes, scroll bar values) have 32 bits, so that no result of the handlers
  leaves the exponent range of binary64, and the rounding is that of the 53 bits alone.\<close>

definition round53 :: "rat \<Rightarrow> rat" where
  "round53 q = (if q = 0 then 0 else round_to (ilog2 \<bar>q\<bar> - 52) q)"

text \<open>A Python number is an \<open>int\<close> or a \<open>float\<close>. Arithmetic on two \<open>int\<close>s is exact,
  except \<open>/\<close>, which gives the quotient rounded once; with a \<open>float\<close> operand the
  \<open>int\<close> operand is converted first. The callers test the divisor of \<open>/\<close> for zero.\<close>

datatype number = PyInt int | PyFloat rat

fun to_float :: "number \<Rightarrow> rat" where
  "to_float (PyInt k) = round53 (of_int k)"
| "to_float (PyFloat q) = q"

fun py_sub :: "number \<Rightarrow> number \<Rightarrow> number" where
  "py_sub (PyInt a) (PyInt b) = PyInt (a - b)"
| "py_sub a b = PyFloat (round53 (to_float a - to_float b))"

fun py_add :: "number \<Rightarrow> number \<Rightarrow> number" where
  "py_add (PyInt a) (PyInt b) = PyInt (a + b)"
| "py_add a b = PyFloat (round53 (to_float a + to_float b))"

fun py_mul :: "number \<Rightarrow> number \<Rightarrow> number" where
  "py_mul (PyInt a) (PyInt b) = PyInt (a * b)"
| "py_mul a b = PyFloat (round53 (to_float a * to_float b))"

fun py_truediv :: "number \<Rightarrow> number \<Rightarrow> number" where
  "py_truediv (PyInt a) (PyInt b) = PyFloat (round53 (of_int a / of_int b))"
| "py_truediv a b = PyFloat (round53 (to_float a / to_float b))"

text \<open>\<open>int(x)\<close> on a float.\<close>

definition int_of_float :: "rat \<Rightarrow> int" where
  "int_of_float q = (if 0 \<le> q then \<lfloor>q\<rfloor> else \<lceil>q\<rceil>)"

text \<open>A coordinate that \<open>QPoint(a, b)\<close> stores.\<close>

fun to_int :: "number \<Rightarrow> int" where
  "to_int (PyInt k) = k"
| "to_int (PyFloat q) = int_of_float q"

text \<open>The elements of a NumPy \<open>float64\<close> array, which may be \<open>nan\<close> or infinite. The
  rounding has the whole of binary64: below \<open>2 ^ -1022\<close> the numbers are the multiples of
  \<open>2 ^ -1074\<close>, and a result that rounds to \<open>2 ^ 1024\<close> or more in magnitude is an infinity
  (\<open>bit_length k > 1024\<close> says \<open>k \<ge> 2 ^ 1024\<close>). The sign of a zero is not kept: the
  divisor \<open>mat.max() - mat.min()\<close> is a zero only when every dividend \<open>v - mat.min()\<close> is
  a zero too, and \<open>0 / 0\<close> is \<open>nan\<close> whatever the signs.\<close>

datatype float64 = Finite rat | NaN | PosInf | NegInf

definition float64_round :: "rat \<Rightarrow> float64" where
  "float64_round q =
     (if q = 0 then Finite 0
      else (let r = round_to (max (ilog2 \<bar>q\<bar> - 52) (- 1074)) q
            in if 1024 < bit_length \<lfloor>\<bar>r\<bar>\<rfloor> then (if 0 < q then PosInf else NegInf)
               else Finite r))"

fun f_sub :: "float64 \<Rightarrow> float64 \<Rightarrow> float64" where
  "f_sub (Finite a) (Finite b) = float64_round (a - b)"
| "f_sub NaN y = NaN"
| "f_sub x NaN = NaN"
| "f_sub PosInf PosInf = NaN"
| "f_sub NegInf NegInf = NaN"
| "f_sub PosInf y = PosInf"
| "f_sub NegInf y = NegInf"
| "f_sub (Finite a) PosInf = NegInf"
| "f_sub (Finite a) NegInf = PosInf"

fun f_div :: "float64 \<Rightarrow> float64 \<Rightarrow> float64" where
  "f_div (Finite a) (Finite b) =
     (if b \<noteq> 0 then float64_round (a / b)
      else if a = 0 then NaN else if 0 < a then PosInf else NegInf)"
| "f_div NaN y = NaN"
| "f_div x NaN = NaN"
| "f_div (Finite a) y = Finite 0"
| "f_div PosInf (Finite b) = (if 0 \<le> b then PosInf else NegInf)"
| "f_div NegInf (Finite b) = (if 0 \<le> b then NegInf else PosInf)"
| "f_div x y = NaN"

text \<open>The order of \<open><\<close> on floats, in which \<open>nan\<close> is below and above nothing, and the
  minimum and maximum of NumPy, which give \<open>nan\<close> when an operand is \<open>nan\<close>.\<close>

fun f_less :: "float64 \<Rightarrow> float64 \<Rightarrow> bool" where
  "f_less (Finite a) (Finite b) \<longleftrightarrow> a < b"
| "f_less NaN y \<longleftrightarrow> False"
| "f_less x NaN \<longleftrightarrow> False"
| "f_less x NegInf \<longleftrightarrow> False"
| "f_less PosInf y \<longleftrightarrow> False"
| "f_less x y \<longleftrightarrow> True"

definition f_minimum :: "float64 \<Rightarrow> float64 \<Rightarrow> float64" where
  "f_minimum a b = (if a = NaN \<or> b = NaN then NaN else if f_less b a then b else a)"

definition f_maximum :: "float64 \<Rightarrow> float64 \<Rightarrow> float64" where
  "f_maximum a b = (if a = NaN \<or> b = NaN then NaN else if f_less a b then b else a)"

subsection \<open>Coordinates\<close>

text \<open>\<open>QPoint(l, t), QPoint(r, b)\<close> of two corners.\<close>

definition toTLBR :: "QPoint \<Rightarrow> QPoint \<Rightarrow> QPoint \<times> QPoint" where
  "toTLBR p1 p2 =
     (let x1 = fst p1; y1 = snd p1; x2 = fst p2; y2 = snd p2;
          t = min y1 y2; l = min x1 x2; b = max y1 y2; r = max x1 x2
      in ((l, t), (r, b)))"

text \<open>\<open>self.original_img.width()\<close> raises \<open>AttributeError\<close> on \<open>None\<close>.\<close>

definition cropPoint :: "ImageLabeler \<Rightarrow> QPoint \<Rightarrow> error + QPoint" where
  "cropPoint s p =
     (case original_img s of
        None \<Rightarrow> Inl AttributeError
      | Some orig \<Rightarrow>
          Inr (max 0 (min (fst p) (fst orig)), max 0 (min (snd p) (snd orig))))"

text \<open>The margin of the label around the scaled image, the scroll bar values, then the
  ratio of the original to the scaled size. \<open>/\<close> is Python's true division, which raises
  \<open>ZeroDivisionError\<close> on a zero divisor.\<close>

definition convertToOriginalImageCoords ::
    "widgets \<Rightarrow> ImageLabeler \<Rightarrow> QPoint \<Rightarrow> error + QPoint" where
  "convertToOriginalImageCoords w s p =
     (let offsetX = (case scaled_img s of
                       Some sc \<Rightarrow> py_truediv (py_sub (PyInt (imageLabel_width w)) (PyInt (fst sc)))
                                    (PyInt 2)
                     | None \<Rightarrow> PyInt 0);
          offsetY = (case scaled_img s of
                       Some sc \<Rightarrow> py_truediv (py_sub (PyInt (imageLabel_height w)) (PyInt (snd sc)))
                                    (PyInt 2)
                     | None \<Rightarrow> PyInt 0);
          corrected_pos =
            (to_int (py_add (py_sub (PyInt (fst p)) offsetX) (PyInt (h_scroll w))),
             to_int (py_add (py_sub (PyInt (snd p)) offsetY) (PyInt (v_scroll w))))
      in case original_img s of
           None \<Rightarrow> Inr corrected_pos
         | Some orig \<Rightarrow>
             (case scaled_img s of
                None \<Rightarrow> Inl AttributeError
              | Some sc \<Rightarrow>
                  if fst sc = 0 then Inl ZeroDivisionError
                  else if snd sc = 0 then Inl ZeroDivisionError
                  else (let scale_w = py_truediv (PyInt (fst orig)) (PyInt (fst sc));
                            scale_h = py_truediv (PyInt (snd orig)) (PyInt (snd sc))
                        in Inr (to_int (py_mul (PyInt (fst corrected_pos)) scale_w),
                                to_int (py_mul (PyInt (snd corrected_pos)) scale_h)))))"

text \<open>The conversion of a display point: \<open>convertToOriginalImageCoords\<close>, then
  \<open>cropPoint\<close>, as every mouse handler composes them.\<close>

definition toOriginal :: "widgets \<Rightarrow> ImageLabeler \<Rightarrow> QPoint \<Rightarrow> error + QPoint" where
  "toOriginal w s p =
     (case convertToOriginalImageCoords w s p of
        Inl e \<Rightarrow> Inl e
      | Inr q \<Rightarrow> cropPoint s q)"

text \<open>\<open>self.imageLabel.rect().contains(event.pos())\<close>: the rectangle of the label is
  \<open>QRect(0, 0, width, height)\<close>.\<close>

definition imageLabel_contains :: "widgets \<Rightarrow> QPoint \<Rightarrow> bool" where
  "imageLabel_contains w p \<longleftrightarrow>
     0 \<le> fst p \<and> fst p < imageLabel_width w \<and> 0 \<le> snd p \<and> snd p < imageLabel_height w"

subsection \<open>The record and message texts\<close>

fun rect2Text_from :: "nat \<Rightarrow> (QPoint \<times> QPoint) list \<Rightarrow> string" where
  "rect2Text_from i [] = []"
| "rect2Text_from i (rect # rs) =
     (''Area '' @ str_nat (i + 1) @ '': '' @ str_int (fst (fst rect)) @ '', ''
        @ str_int (snd (fst rect)) @ '', '' @ str_int (fst (snd rect)) @ '', ''
        @ str_int (snd (snd rect)) @ [CHR 0x0A]) @ rect2Text_from (i + 1) rs"

definition rect2Text :: "(QPoint \<times> QPoint) list \<Rightarrow> string" where
  "rect2Text rs = rect2Text_from 0 rs"

definition updateMessage :: "string \<Rightarrow> ImageLabeler \<Rightarrow> ImageLabeler" where
  "updateMessage m s = s\<lparr>messageText := messageText s @ [m]\<rparr>"

definition updateRecord :: "string \<Rightarrow> ImageLabeler \<Rightarrow> ImageLabeler" where
  "updateRecord m s = s\<lparr>recordText := m\<rparr>"

subsection \<open>The mouse handlers\<close>

definition mouseMoveEvent ::
    "widgets \<Rightarrow> ImageLabeler \<Rightarrow> QMouseEvent \<Rightarrow> (error \<times> ImageLabeler) + ImageLabeler" where
  "mouseMoveEvent w s ev =
     (if scaled_img s \<noteq> None \<and> imageLabel_contains w (ev_pos ev) then
        (case convertToOriginalImageCoords w s (fst (ev_pos ev) - 10, snd (ev_pos ev) - 10) of
           Inl e \<Rightarrow> Inl (e, s)
         | Inr q \<Rightarrow>
             (case cropPoint s q of
                Inl e \<Rightarrow> Inl (e, s)
              | Inr original_pos \<Rightarrow>
                  (let s1 = s\<lparr>mousePosLabel := ''Mouse Pos: '' @ str_int (fst original_pos)
                                  @ '', '' @ str_int (snd original_pos)\<rparr>
                   in if is_drawing s1 then Inr (s1\<lparr>end_point := original_pos\<rparr>)
                      else Inr s1)))
      else Inr (s\<lparr>mousePosLabel := ''Mouse Pos:''\<rparr>))"

definition mousePressEvent ::
    "widgets \<Rightarrow> ImageLabeler \<Rightarrow> QMouseEvent \<Rightarrow> (error \<times> ImageLabeler) + ImageLabeler" where
  "mousePressEvent w s ev =
     (if ev_button ev = LeftButton \<and> scaled_img s \<noteq> None \<and> imageLabel_contains w (ev_pos ev) then
        (let s1 = s\<lparr>is_drawing := True\<rparr> in
         case convertToOriginalImageCoords w s1 (fst (ev_pos ev) - 10, snd (ev_pos ev) - 10) of
           Inl e \<Rightarrow> Inl (e, s1)
         | Inr q \<Rightarrow>
             (let s2 = s1\<lparr>start_point := q\<rparr> in
              case cropPoint s2 (start_point s2) of
                Inl e \<Rightarrow> Inl (e, s2)
              | Inr q' \<Rightarrow>
                  (let s3 = s2\<lparr>start_point := q'\<rparr>;
                       s4 = s3\<lparr>end_point := start_point s3\<rparr>
                   in Inr (updateMessage (''Start: x='' @ str_int (fst (start_point s4))
                             @ '', y='' @ str_int (snd (start_point s4))) s4))))
      else Inr s)"

definition mouseReleaseEvent ::
    "widgets \<Rightarrow> ImageLabeler \<Rightarrow> QMouseEvent \<Rightarrow> (error \<times> ImageLabeler) + ImageLabeler" where
  "mouseReleaseEvent w s ev =
     (if ev_button ev = LeftButton \<and> is_drawing s then
        (let s1 = s\<lparr>is_drawing := False\<rparr> in
         case convertToOriginalImageCoords w s1 (fst (ev_pos ev) - 10, snd (ev_pos ev) - 10) of
           Inl e \<Rightarrow> Inl (e, s1)
         | Inr q \<Rightarrow>
             (let s2 = s1\<lparr>end_point := q\<rparr> in
              case cropPoint s2 (end_point s2) of
                Inl e \<Rightarrow> Inl (e, s2)
              | Inr q' \<Rightarrow>
                  (let s3 = s2\<lparr>end_point := q'\<rparr>;
                       s4 = (if \<bar>fst (end_point s3) - fst (start_point s3)\<bar>
                                 * \<bar>snd (end_point s3) - snd (start_point s3)\<bar>
                               > min_rect_area s3
                             then s3\<lparr>rectangles := rectangles s3
                                     @ [toTLBR (start_point s3) (end_point s3)]\<rparr>
                             else s3);
                       s5 = updateMessage (''End: x='' @ str_int (fst (end_point s4))
                              @ '', y='' @ str_int (snd (end_point s4))) s4
                   in Inr (updateRecord (rect2Text (rectangles s5)) s5))))
      else Inr s)"

subsection \<open>Undo\<close>

text \<open>\<open>list.pop()\<close> removes the last element.\<close>

definition undoLastRectangle :: "ImageLabeler \<Rightarrow> ImageLabeler" where
  "undoLastRectangle s =
     (if length (rectangles s) > 0 then
        (let s1 = s\<lparr>rectangles := butlast (rectangles s)\<rparr>
         in updateRecord (rect2Text (rectangles s1)) s1)
      else s)"

subsection \<open>Export\<close>

record rect_dict =
  rect_id :: nat
  tlbw :: "int list"

datatype file_content = JsonRects "rect_dict list" | TextFile string

text \<open>The loop over \<open>enumerate(self.rectangles, start=1)\<close> that builds \<open>rects_data\<close>.\<close>

fun rects_data_from :: "nat \<Rightarrow> (QPoint \<times> QPoint) list \<Rightarrow> rect_dict list" where
  "rects_data_from idx [] = []"
| "rects_data_from idx (rect # rs) =
     (let top_left = fst rect; bottom_right = snd rect;
          t = min (snd top_left) (snd bottom_right);
          l = min (fst top_left) (fst bottom_right);
          b = max (snd top_left) (snd bottom_right);
          w = max (fst top_left) (fst bottom_right)
      in \<lparr>rect_id = idx, tlbw = [t, l, b, w]\<rparr> # rects_data_from (idx + 1) rs)"

definition rects_data :: "(QPoint \<times> QPoint) list \<Rightarrow> rect_dict list" where
  "rects_data rs = rects_data_from 1 rs"

text \<open>The f-string of the text export: four integers, single spaces, a newline.\<close>

definition write_line :: "int \<Rightarrow> int \<Rightarrow> int \<Rightarrow> int \<Rightarrow> string" where
  "write_line a b c d =
     str_int a @ '' '' @ str_int b @ '' '' @ str_int c @ '' '' @ str_int d @ [CHR 0x0A]"

definition txt_line :: "QPoint \<times> QPoint \<Rightarrow> string" where
  "txt_line rect = write_line (fst (fst rect)) (snd (fst rect)) (fst (snd rect)) (snd (snd rect))"

definition txt_lines :: "(QPoint \<times> QPoint) list \<Rightarrow> string list" where
  "txt_lines rs = map txt_line rs"

definition endswith :: "string \<Rightarrow> string \<Rightarrow> bool" where
  "endswith s suf \<longleftrightarrow> length suf \<le> length s \<and> drop (length s - length suf) s = suf"

text \<open>\<open>saveRectangles\<close> with the file name the dialog returned (empty when the dialog was
  cancelled). The result lists the files written, with their contents, and the new state.\<close>

definition saveRectangles ::
    "ImageLabeler \<Rightarrow> string \<Rightarrow> (string \<times> file_content) list \<times> ImageLabeler" where
  "saveRectangles s fileName =
     (let (out1, s1) =
            (if endswith fileName ''.json''
             then ([(fileName, JsonRects (rects_data (rectangles s)))],
                   updateMessage (''Rectangles saved to '' @ fileName) s)
             else ([], s));
          (out2, s2) =
            (if endswith fileName ''.txt''
             then ([(fileName, TextFile (concat (txt_lines (rectangles s1))))],
                   updateMessage (''Rectangles saved to '' @ fileName) s1)
             else ([], s1))
      in (out1 @ out2, s2))"

subsection \<open>Reading the matrix file\<close>

text \<open>The lines of the file are \<open>str\<close> values: lists of code points. \<open>str.split()\<close> with
  no argument gives the maximal runs of characters that are not whitespace; the whitespace
  of a \<open>str\<close> is that of Unicode.\<close>

type_synonym str = "nat list"

definition isspace :: "nat \<Rightarrow> bool" where
  "isspace c \<longleftrightarrow>
     c \<in> {0x09, 0x0A, 0x0B, 0x0C, 0x0D, 0x1C, 0x1D, 0x1E, 0x1F, 0x20, 0x85, 0xA0, 0x1680,
          0x2028, 0x2029, 0x202F, 0x205F, 0x3000} \<or>
     (0x2000 \<le> c \<and> c \<le> 0x200A)"

fun split_from :: "str \<Rightarrow> str \<Rightarrow> str list" where
  "split_from cur [] = (if cur = [] then [] else [cur])"
| "split_from cur (c # cs) =
     (if isspace c then (if cur = [] then split_from [] cs else cur # split_from [] cs)
      else split_from (cur @ [c]) cs)"

definition split :: "str \<Rightarrow> str list" where
  "split line = split_from [] line"

text \<open>\<open>list(map(float, tokens))\<close>. Python's \<open>float\<close> on a string is the parameter \<open>pyfloat\<close>;
  \<open>None\<close> stands for its \<open>ValueError\<close>.\<close>

fun float_row :: "(str \<Rightarrow> float64 option) \<Rightarrow> str list \<Rightarrow> error + float64 list" where
  "float_row pyfloat [] = Inr []"
| "float_row pyfloat (t # ts) =
     (case pyfloat t of
        None \<Rightarrow> Inl ValueError
      | Some v \<Rightarrow>
          (case float_row pyfloat ts of Inl e \<Rightarrow> Inl e | Inr vs \<Rightarrow> Inr (v # vs)))"

fun float_rows :: "(str \<Rightarrow> float64 option) \<Rightarrow> str list \<Rightarrow> error + float64 list list" where
  "float_rows pyfloat [] = Inr []"
| "float_rows pyfloat (line # ls) =
     (case float_row pyfloat (split line) of
        Inl e \<Rightarrow> Inl e
      | Inr row \<Rightarrow>
          (case float_rows pyfloat ls of Inl e \<Rightarrow> Inl e | Inr rows \<Rightarrow> Inr (row # rows)))"

text \<open>\<open>np.array\<close> on a list of lists of floats: the empty list gives the array of shape
  \<open>(0,)\<close>, rows of one length \<open>m\<close> give shape \<open>(n, m)\<close>, and rows of different lengths
  are refused with \<open>ValueError\<close> (NumPy 1.24 and later).\<close>

definition np_array :: "'a list list \<Rightarrow> error + 'a ndarray" where
  "np_array rows =
     (case rows of
        [] \<Rightarrow> Inr \<lparr>shape = [0], flat = []\<rparr>
      | r # rs \<Rightarrow>
          if list_all (\<lambda>r'. length r' = length r) rs
          then Inr \<lparr>shape = [length rows, length r], flat = concat rows\<rparr>
          else Inl ValueError)"

definition load_matrix_from_txt ::
    "(str \<Rightarrow> float64 option) \<Rightarrow> str list \<Rightarrow> error + float64 ndarray" where
  "load_matrix_from_txt pyfloat lines =
     (case float_rows pyfloat lines of Inl e \<Rightarrow> Inl e | Inr matrix \<Rightarrow> np_array matrix)"

text \<open>The input files that are well formed: every token of every line is a number for
  \<open>float\<close>, and all lines have as many tokens as the first.\<close>

fun well_formed :: "(str \<Rightarrow> float64 option) \<Rightarrow> str list \<Rightarrow> bool" where
  "well_formed pyfloat [] = True"
| "well_formed pyfloat (line # ls) =
     (list_all (\<lambda>l. list_all (\<lambda>t. pyfloat t \<noteq> None) (split l)) (line # ls) \<and>
      list_all (\<lambda>l. length (split l) = length (split line)) ls)"

subsection \<open>Loading an image\<close>

text \<open>\<open>mat.min()\<close> and \<open>mat.max()\<close> raise \<open>ValueError\<close> on an array with no element.\<close>

definition np_min :: "float64 list \<Rightarrow> error + float64" where
  "np_min xs =
     (case xs of [] \<Rightarrow> Inl ValueError | x # xs' \<Rightarrow> Inr (fold (\<lambda>v acc. f_minimum acc v) xs' x))"

definition np_max :: "float64 list \<Rightarrow> error + float64" where
  "np_max xs =
     (case xs of [] \<Rightarrow> Inl ValueError | x # xs' \<Rightarrow> Inr (fold (\<lambda>v acc. f_maximum acc v) xs' x))"

text \<open>\<open>(mat - mat.min()) / (mat.max() - mat.min())\<close>, element by element. NumPy divides
  by zero without raising.\<close>

definition normalize :: "float64 \<Rightarrow> float64 \<Rightarrow> float64 ndarray \<Rightarrow> float64 ndarray" where
  "normalize mn mx mat =
     \<lparr>shape = shape mat, flat = map (\<lambda>v. f_div (f_sub v mn) (f_sub mx mn)) (flat mat)\<rparr>"

text \<open>\<open>mat * 255\<close>, element by element.\<close>

fun times_255 :: "float64 \<Rightarrow> float64" where
  "times_255 (Finite q) = float64_round (q * 255)"
| "times_255 v = v"

text \<open>\<open>astype(np.uint8)\<close>: truncation, then the low eight bits. On \<open>nan\<close> and the
  infinities the conversion is undefined in C; 0 is what x86-64 gives.\<close>

fun astype_uint8 :: "float64 \<Rightarrow> nat" where
  "astype_uint8 (Finite q) = nat (int_of_float q mod 256)"
| "astype_uint8 v = 0"

text \<open>\<open>np.repeat(mat[:, :, np.newaxis], 3, axis=2)\<close> on a 2-D array and
  \<open>np.repeat(mat, 3, axis=2)\<close> on a 3-D one: each element three times along the last axis,
  which is new in the first case.\<close>

definition repeat3_newaxis :: "'a ndarray \<Rightarrow> 'a ndarray" where
  "repeat3_newaxis mat =
     \<lparr>shape = shape mat @ [3], flat = concat (map (replicate 3) (flat mat))\<rparr>"

definition repeat3_axis2 :: "'a ndarray \<Rightarrow> 'a ndarray" where
  "repeat3_axis2 mat =
     \<lparr>shape = take 2 (shape mat) @ [3 * (shape mat ! 2)],
      flat = concat (map (replicate 3) (flat mat))\<rparr>"

text \<open>\<open>mat[:, :, 1:] = 0\<close> on a 3-D array with \<open>c\<close> channels, stored row by row: the
  element at position \<open>k\<close> is of channel \<open>k mod c\<close>.\<close>

fun zero_channels_from :: "nat \<Rightarrow> nat \<Rightarrow> float64 list \<Rightarrow> float64 list" where
  "zero_channels_from c k [] = []"
| "zero_channels_from c k (x # xs) =
     (if k mod c = 0 then x else Finite 0) # zero_channels_from c (k + 1) xs"

definition zero_channels :: "float64 ndarray \<Rightarrow> float64 ndarray" where
  "zero_channels mat = mat\<lparr>flat := zero_channels_from (shape mat ! 2) 0 (flat mat)\<rparr>"

text \<open>The branch that the \<open>if\<close>/\<open>elif\<close> chain on \<open>mat.shape\<close> takes.\<close>

datatype shape_branch = Promote2D | Promote3D | Passthrough | InvalidShape

definition branch_of :: "nat list \<Rightarrow> shape_branch" where
  "branch_of sh =
     (if length sh = 2 then Promote2D
      else if length sh = 3 \<and> sh ! 2 = 1 then Promote3D
      else if length sh = 3 \<and> sh ! 2 = 3 then Passthrough
      else InvalidShape)"

text \<open>\<open>displayImage\<close>; \<open>scaled\<close> is the size of the pixmap that
  \<open>self.original_img.scaled(...)\<close> returns.\<close>

definition displayImage ::
    "ImageLabeler \<Rightarrow> QPixmap \<Rightarrow> (error \<times> ImageLabeler) + ImageLabeler" where
  "displayImage s scaled =
     (if scaled_img s \<noteq> None then
        (case original_img s of
           None \<Rightarrow> Inl (AttributeError, s)
         | Some orig \<Rightarrow> Inr (s\<lparr>scaled_img := Some scaled\<rparr>))
      else Inr s)"

text \<open>\<open>scaleImage\<close> with the value of the slider.\<close>

definition scaleImage ::
    "ImageLabeler \<Rightarrow> int \<Rightarrow> QPixmap \<Rightarrow> (error \<times> ImageLabeler) + ImageLabeler" where
  "scaleImage s slider scaled =
     (let s1 = s\<lparr>current_scale := to_float (py_truediv (PyInt slider) (PyFloat 100))\<rparr>;
          s2 = s1\<lparr>scaleValueLabel := str_int slider @ ''%''\<rparr>
      in if original_img s2 \<noteq> None then displayImage s2 scaled else Inr s2)"

text \<open>The body of \<open>loadImage\<close> from the conversion to \<open>uint8\<close> on: the array has three
  axes here, \<open>h, w, c = mat.shape\<close>.\<close>

definition show_matrix ::
    "ImageLabeler \<Rightarrow> float64 ndarray \<Rightarrow> QPixmap \<Rightarrow> (error \<times> ImageLabeler) + ImageLabeler" where
  "show_matrix s mat scaled =
     (let mat' = \<lparr>shape = shape mat, flat = map (\<lambda>v. astype_uint8 (times_255 v)) (flat mat)\<rparr>;
          h = int (shape mat' ! 0); w = int (shape mat' ! 1);
          s1 = s\<lparr>meta_img := Some mat'\<rparr>;
          s2 = s1\<lparr>original_img := Some (w, h)\<rparr>;
          s3 = s2\<lparr>original_img_size := original_img s2\<rparr>;
          s4 = s3\<lparr>scaled_img := original_img s3\<rparr>
      in displayImage s4 scaled)"

text \<open>The body of \<open>loadImage\<close> from the matrix that \<open>load_matrix_from_txt\<close> returned on.
  The last branch reads \<open>self.statusLabel\<close>, an attribute that the class never sets.\<close>

definition loadImage_matrix ::
    "ImageLabeler \<Rightarrow> float64 ndarray \<Rightarrow> QPixmap \<Rightarrow> (error \<times> ImageLabeler) + ImageLabeler" where
  "loadImage_matrix s mat0 scaled =
     (case np_min (flat mat0) of
        Inl e \<Rightarrow> Inl (e, s)
      | Inr mn \<Rightarrow>
          (case np_max (flat mat0) of
             Inl e \<Rightarrow> Inl (e, s)
           | Inr mx \<Rightarrow>
               (let mat = normalize mn mx mat0 in
                case branch_of (shape mat) of
                  Promote2D \<Rightarrow> show_matrix s (zero_channels (repeat3_newaxis mat)) scaled
                | Promote3D \<Rightarrow> show_matrix s (zero_channels (repeat3_axis2 mat)) scaled
                | Passthrough \<Rightarrow> show_matrix s mat scaled
                | InvalidShape \<Rightarrow> Inl (AttributeError, s))))"

text \<open>\<open>loadImage\<close>: \<open>file\<close> is \<open>None\<close> when the dialog was cancelled, and the lines of the
  chosen file, as \<open>readlines\<close> returns them, otherwise.\<close>

definition loadImage ::
    "(str \<Rightarrow> float64 option) \<Rightarrow> ImageLabeler \<Rightarrow> str list option \<Rightarrow> QPixmap
      \<Rightarrow> (error \<times> ImageLabeler) + ImageLabeler" where
  "loadImage pyfloat s file scaled =
     (case file of
        None \<Rightarrow> Inr s
      | Some lines \<Rightarrow>
          (case load_matrix_from_txt pyfloat lines of
             Inl e \<Rightarrow> Inl (e, s)
           | Inr mat \<Rightarrow> loadImage_matrix s mat scaled))"

subsection \<open>Sessions\<close>

text \<open>The events of a session, each with what the handler reads from outside the object.
  An exception that leaves a handler ends the session.\<close>

datatype event =
    MouseMove widgets QMouseEvent
  | MousePress widgets QMouseEvent
  | MouseRelease widgets QMouseEvent
  | Undo
  | Save string
  | Load "str list option" QPixmap
  | Scale int QPixmap

fun handle ::
    "(str \<Rightarrow> float64 option) \<Rightarrow> ImageLabeler \<Rightarrow> event \<Rightarrow> (error \<times> ImageLabeler) + ImageLabeler" where
  "handle pyfloat s (MouseMove w ev) = mouseMoveEvent w s ev"
| "handle pyfloat s (MousePress w ev) = mousePressEvent w s ev"
| "handle pyfloat s (MouseRelease w ev) = mouseReleaseEvent w s ev"
| "handle pyfloat s Undo = Inr (undoLastRectangle s)"
| "handle pyfloat s (Save fileName) = Inr (snd (saveRectangles s fileName))"
| "handle pyfloat s (Load file scaled) = loadImage pyfloat s file scaled"
| "handle pyfloat s (Scale slider scaled) = scaleImage s slider scaled"

fun run ::
    "(str \<Rightarrow> float64 option) \<Rightarrow> ImageLabeler \<Rightarrow> event list \<Rightarrow> (error \<times> ImageLabeler) + ImageLabeler" where
  "run pyfloat s [] = Inr s"
| "run pyfloat s (e # es) =
     (case handle pyfloat s e of Inl x \<Rightarrow> Inl x | Inr s' \<Rightarrow> run pyfloat s' es)"

text \<open>A rectangle in top-left, bottom-right order.\<close>

definition normalized :: "QPoint \<times> QPoint \<Rightarrow> bool" where
  "normalized rect \<longleftrightarrow> fst (fst rect) \<le> fst (snd rect) \<and> snd (fst rect) \<le> snd (snd rect)"

subsection \<open>Sample inputs\<close>

text \<open>A label of 100 by 100 pixels with both scroll bars at 0, and a session that shows an
  image of 100 by 100 pixels at scale 1.\<close>

definition widgets_100 :: widgets where
  "widgets_100 = \<lparr>imageLabel_width = 100, imageLabel_height = 100, h_scroll = 0, v_scroll = 0\<rparr>"

definition loaded_100 :: ImageLabeler where
  "loaded_100 = init\<lparr>original_img_size := Some (100, 100), original_img := Some (100, 100),
     scaled_img := Some (100, 100)\<rparr>"

text \<open>The \<open>str\<close> of an ASCII literal.\<close>

definition ascii :: "string \<Rightarrow> str" where
  "ascii cs = map of_char cs"

text \<open>\<open>float\<close> on the tokens of one decimal digit, which is all the sample files hold.\<close>

definition float_digit :: "str \<Rightarrow> float64 option" where
  "float_digit t =
     (case t of
        [c] \<Rightarrow> if 48 \<le> c \<and> c < 58 then Some (Finite (of_nat (c - 48))) else None
      | _ \<Rightarrow> None)"

text \<open>The matrix file of four rows \<open>0 0 0 0\<close>, \<open>0 5 5 0\<close>, \<open>0 5 5 0\<close>, \<open>0 0 0 0\<close>.\<close>

definition file_4x4 :: "str list" where
  "file_4x4 = map ascii [''0 0 0 0\<newline>'', ''0 5 5 0\<newline>'', ''0 5 5 0\<newline>'', ''0 0 0 0\<newline>'']"

text \<open>A session in which the image of 4 by 4 pixels is shown at 10 percent, where the
  scaled pixmap is empty, during a drag from \<open>(0, 0)\<close> whose end has been tracked to
  \<open>(4, 4)\<close>.\<close>

definition dragging_4x4_at_10 :: ImageLabeler where
  "dragging_4x4_at_10 = init\<lparr>original_img_size := Some (4, 4), original_img := Some (4, 4),
     scaled_img := Some (0, 0), start_point := (0, 0), end_point := (4, 4),
     is_drawing := True\<rparr>"

section \<open>Properties\<close>

subsection \<open>Auxiliary facts\<close>

lemma convert_Some:
  assumes "original_img s = Some orig" "scaled_img s = Some sc" "fst sc \<noteq> 0" "snd sc \<noteq> 0"
  shows "\<exists>q. convertToOriginalImageCoords w s p = Inr q"
  using assms by (simp add: convertToOriginalImageCoords_def Let_def)

lemma convert_zero:
  assumes "original_img s = Some orig" "scaled_img s = Some sc" "fst sc = 0 \<or> snd sc = 0"
  shows "convertToOriginalImageCoords w s p = Inl ZeroDivisionError"
  using assms by (auto simp add: convertToOriginalImageCoords_def Let_def)

lemma convert_ignores_drag:
  "convertToOriginalImageCoords w (s\<lparr>is_drawing := b\<rparr>) p = convertToOriginalImageCoords w s p"
  "convertToOriginalImageCoords w (s\<lparr>end_point := e\<rparr>) p = convertToOriginalImageCoords w s p"
  "convertToOriginalImageCoords w (s\<lparr>start_point := e\<rparr>) p = convertToOriginalImageCoords w s p"
  by (simp_all add: convertToOriginalImageCoords_def Let_def cong: option.case_cong)

lemma cropPoint_ignores_drag:
  "cropPoint (s\<lparr>is_drawing := b\<rparr>) p = cropPoint s p"
  "cropPoint (s\<lparr>end_point := e\<rparr>) p = cropPoint s p"
  "cropPoint (s\<lparr>start_point := e\<rparr>) p = cropPoint s p"
  by (simp_all add: cropPoint_def)

lemma toOriginal_ignores_drag:
  "toOriginal w (s\<lparr>is_drawing := b\<rparr>) p = toOriginal w s p"
  "toOriginal w (s\<lparr>end_point := e\<rparr>) p = toOriginal w s p"
  "toOriginal w (s\<lparr>start_point := e\<rparr>) p = toOriginal w s p"
  by (simp_all add: toOriginal_def convert_ignores_drag cropPoint_ignores_drag
      cong: sum.case_cong)

lemma toOriginal_Some:
  assumes "original_img s = Some orig" "scaled_img s = Some sc" "fst sc \<noteq> 0" "snd sc \<noteq> 0"
  shows "\<exists>q. toOriginal w s p = Inr q"
proof -
  from convert_Some [OF assms] obtain q where "convertToOriginalImageCoords w s p = Inr q" by blast
  then show ?thesis using assms(1) by (simp add: toOriginal_def cropPoint_def)
qed

lemma toOriginal_in_image:
  assumes "toOriginal w s p = Inr q" "original_img s = Some (W, H)" "0 \<le> W" "0 \<le> H"
  shows "0 \<le> fst q \<and> fst q \<le> W \<and> 0 \<le> snd q \<and> snd q \<le> H"
  using assms by (auto simp add: toOriginal_def cropPoint_def split: sum.splits)

lemma mouseRelease_result:
  assumes "ev_button ev = LeftButton" "is_drawing s"
    and "toOriginal w s (fst (ev_pos ev) - 10, snd (ev_pos ev) - 10) = Inr e"
  shows "\<exists>s'. mouseReleaseEvent w s ev = Inr s' \<and> end_point s' = e \<and>
           start_point s' = start_point s \<and> \<not> is_drawing s' \<and>
           rectangles s' =
             (if \<bar>fst e - fst (start_point s)\<bar> * \<bar>snd e - snd (start_point s)\<bar> > min_rect_area s
              then rectangles s @ [toTLBR (start_point s) e] else rectangles s)"
  using assms
  by (auto simp add: mouseReleaseEvent_def toOriginal_def convert_ignores_drag
        cropPoint_ignores_drag updateMessage_def updateRecord_def Let_def
      split: sum.splits)

lemma mouseRelease_raises:
  assumes "ev_button ev = LeftButton" "is_drawing s"
    and "original_img s = Some orig" "scaled_img s = Some sc" "fst sc = 0 \<or> snd sc = 0"
  shows "mouseReleaseEvent w s ev = Inl (ZeroDivisionError, s\<lparr>is_drawing := False\<rparr>)"
  using assms(1,2) convert_zero [OF assms(3-5)]
  by (simp add: mouseReleaseEvent_def convert_ignores_drag Let_def)

lemma loaded_100_fields:
  "original_img loaded_100 = Some (100, 100)" "scaled_img loaded_100 = Some (100, 100)"
  "start_point loaded_100 = (0, 0)" "rectangles loaded_100 = []" "min_rect_area loaded_100 = 10"
  "end_point loaded_100 = (0, 0)" "\<not> is_drawing loaded_100"
  by (simp_all add: loaded_100_def init_def)

lemma dragging_4x4_at_10_fields:
  "original_img dragging_4x4_at_10 = Some (4, 4)" "scaled_img dragging_4x4_at_10 = Some (0, 0)"
  "start_point dragging_4x4_at_10 = (0, 0)" "end_point dragging_4x4_at_10 = (4, 4)"
  "rectangles dragging_4x4_at_10 = []" "min_rect_area dragging_4x4_at_10 = 10"
  "is_drawing dragging_4x4_at_10"
  by (simp_all add: dragging_4x4_at_10_def init_def)

text \<open>The conversion at scale 1, evaluated at the points that the examples below use.\<close>

lemma toOriginal_100:
  "toOriginal widgets_100 loaded_100 (- 5, 700) = Inr (0, 100)"
  "toOriginal widgets_100 loaded_100 (11, 1) = Inr (11, 1)"
  "toOriginal widgets_100 loaded_100 (10, 1) = Inr (10, 1)"
  "toOriginal widgets_100 loaded_100 (20, 30) = Inr (20, 30)"
  "toOriginal widgets_100 loaded_100 (990, 990) = Inr (100, 100)"
  by code_simp+

text \<open>The rounding of the floats is visible in the result: with an image of 130 pixels
  shown on 230 pixels, the display coordinate 23 gives \<open>23 * (130 / 230)\<close>, which is
  \<open>12.999999999999998\<close> as a \<open>float\<close>, and the coordinate stored is 12.\<close>

lemma convert_rounds_below_13:
  "convertToOriginalImageCoords
     \<lparr>imageLabel_width = 230, imageLabel_height = 230, h_scroll = 0, v_scroll = 0\<rparr>
     (init\<lparr>original_img := Some (130, 130), scaled_img := Some (230, 230)\<rparr>) (23, 23)
   = Inr (12, 12)"
  by code_simp

subsection \<open>Display points map into the image\<close>

text \<open>
  C3, as amended. Whenever the scaled pixmap has a width and a height other than 0,
  \<open>convertToOriginalImageCoords\<close> followed by \<open>cropPoint\<close> returns, for every display point
  (negative and over-large ones too), a point within \<open>[0, W] \<times> [0, H]\<close> of the image of
  size \<open>W \<times> H\<close>, and raises nothing.
\<close>

theorem toOriginal_clamps:
  assumes "original_img s = Some (W, H)" "0 \<le> W" "0 \<le> H"
    and "scaled_img s = Some (sw, sh)" "sw \<noteq> 0" "sh \<noteq> 0"
  shows "\<exists>q. toOriginal w s p = Inr q \<and> 0 \<le> fst q \<and> fst q \<le> W \<and> 0 \<le> snd q \<and> snd q \<le> H"
proof -
  from toOriginal_Some [of s "(W, H)" "(sw, sh)" w p] assms
  obtain q where q: "toOriginal w s p = Inr q" by auto
  from toOriginal_in_image [OF q assms(1-3)] q show ?thesis by blast
qed

theorem toOriginal_clamps_witness:
  "toOriginal widgets_100 loaded_100 (-5, 700) = Inr (0, 100)"
proof -
  from toOriginal_clamps [of loaded_100 100 100 100 100 widgets_100 "(-5, 700)"]
  obtain q where "toOriginal widgets_100 loaded_100 (-5, 700) = Inr q"
    by (auto simp add: loaded_100_fields)
  then show ?thesis by (simp add: toOriginal_100)
qed

text \<open>
  C3, as stated, fails: with a scaled pixmap of width 0, which is what
  \<open>QPixmap.scaled\<close> returns for an image of 4 by 4 pixels at the slider's 10 percent, the
  division by the scaled width raises \<open>ZeroDivisionError\<close>.
\<close>

theorem toOriginal_raises_on_empty_scaled_pixmap:
  "toOriginal widgets_100 (loaded_100\<lparr>original_img := Some (4, 4), scaled_img := Some (0, 0)\<rparr>) (5, 5)
     = Inl ZeroDivisionError"
  by (simp add: toOriginal_def convertToOriginalImageCoords_def Let_def)

subsection \<open>Committing a drag\<close>

text \<open>
  C1, as amended. A release of the left button that ends a drag on a displayed image
  (the original and the scaled pixmap are set) does one of two things. When the scaled
  pixmap has a width and a height other than 0, it sets the end point to the converted
  release position \<open>e\<close>, and appends the rectangle of the start point and \<open>e\<close> to the
  committed list if and only if \<open>|e.x - start.x| * |e.y - start.y|\<close> is strictly greater
  than \<open>min_rect_area\<close>: an area equal to the threshold leaves the list unchanged, the
  threshold plus one commits. The threshold of a new session is 10. When the scaled pixmap
  has the width or the height 0, the release raises \<open>ZeroDivisionError\<close> after clearing
  the drawing flag: no area is computed and nothing is committed.
\<close>

theorem release_commits_iff_area_exceeds_threshold:
  assumes "ev_button ev = LeftButton" "is_drawing s"
    and "original_img s = Some orig" "scaled_img s = Some sc"
  shows "(fst sc \<noteq> 0 \<and> snd sc \<noteq> 0 \<longrightarrow>
          (\<exists>s' e. mouseReleaseEvent w s ev = Inr s' \<and>
             toOriginal w s (fst (ev_pos ev) - 10, snd (ev_pos ev) - 10) = Inr e \<and>
             end_point s' = e \<and>
             rectangles s' =
               (if \<bar>fst e - fst (start_point s)\<bar> * \<bar>snd e - snd (start_point s)\<bar> > min_rect_area s
                then rectangles s @ [toTLBR (start_point s) e] else rectangles s) \<and>
             (\<bar>fst e - fst (start_point s)\<bar> * \<bar>snd e - snd (start_point s)\<bar> = min_rect_area s
                \<longrightarrow> rectangles s' = rectangles s) \<and>
             (\<bar>fst e - fst (start_point s)\<bar> * \<bar>snd e - snd (start_point s)\<bar> = min_rect_area s + 1
                \<longrightarrow> rectangles s' = rectangles s @ [toTLBR (start_point s) e]))) \<and>
         (fst sc = 0 \<or> snd sc = 0 \<longrightarrow>
          mouseReleaseEvent w s ev = Inl (ZeroDivisionError, s\<lparr>is_drawing := False\<rparr>)) \<and>
         min_rect_area init = 10"
proof -
  have "\<exists>s' e. mouseReleaseEvent w s ev = Inr s' \<and>
           toOriginal w s (fst (ev_pos ev) - 10, snd (ev_pos ev) - 10) = Inr e \<and>
           end_point s' = e \<and>
           rectangles s' =
             (if \<bar>fst e - fst (start_point s)\<bar> * \<bar>snd e - snd (start_point s)\<bar> > min_rect_area s
              then rectangles s @ [toTLBR (start_point s) e] else rectangles s) \<and>
           (\<bar>fst e - fst (start_point s)\<bar> * \<bar>snd e - snd (start_point s)\<bar> = min_rect_area s
              \<longrightarrow> rectangles s' = rectangles s) \<and>
           (\<bar>fst e - fst (start_point s)\<bar> * \<bar>snd e - snd (start_point s)\<bar> = min_rect_area s + 1
              \<longrightarrow> rectangles s' = rectangles s @ [toTLBR (start_point s) e])"
    if nz: "fst sc \<noteq> 0" "snd sc \<noteq> 0"
  proof -
    from toOriginal_Some [OF assms(3,4) nz]
    obtain e where e: "toOriginal w s (fst (ev_pos ev) - 10, snd (ev_pos ev) - 10) = Inr e"
      by blast
    from mouseRelease_result [OF assms(1,2) e]
    obtain s' where "mouseReleaseEvent w s ev = Inr s'" "end_point s' = e"
      "rectangles s' =
         (if \<bar>fst e - fst (start_point s)\<bar> * \<bar>snd e - snd (start_point s)\<bar> > min_rect_area s
          then rectangles s @ [toTLBR (start_point s) e] else rectangles s)"
      by blast
    with e show ?thesis by simp
  qed
  moreover have "mouseReleaseEvent w s ev = Inl (ZeroDivisionError, s\<lparr>is_drawing := False\<rparr>)"
    if "fst sc = 0 \<or> snd sc = 0"
    by (rule mouseRelease_raises [OF assms that])
  ultimately show ?thesis by (simp add: init_def)
qed

theorem release_commits_iff_area_exceeds_threshold_witness:
  "(\<exists>s'. mouseReleaseEvent widgets_100 (loaded_100\<lparr>is_drawing := True\<rparr>)
            \<lparr>ev_pos = (21, 11), ev_button = LeftButton\<rparr> = Inr s' \<and>
          end_point s' = (11, 1) \<and> rectangles s' = [((0, 0), (11, 1))]) \<and>
   (\<exists>s'. mouseReleaseEvent widgets_100 (loaded_100\<lparr>is_drawing := True\<rparr>)
            \<lparr>ev_pos = (20, 11), ev_button = LeftButton\<rparr> = Inr s' \<and>
          end_point s' = (10, 1) \<and> rectangles s' = [])"
proof -
  let ?s = "loaded_100\<lparr>is_drawing := True\<rparr>"
  let ?a = "\<lparr>ev_pos = (21, 11), ev_button = LeftButton\<rparr>"
  let ?b = "\<lparr>ev_pos = (20, 11), ev_button = LeftButton\<rparr>"
  have s: "is_drawing ?s" "original_img ?s = Some (100, 100)" "scaled_img ?s = Some (100, 100)"
    by (simp_all add: loaded_100_fields)
  have a: "ev_button ?a = LeftButton" and b: "ev_button ?b = LeftButton" by simp_all
  from release_commits_iff_area_exceeds_threshold [OF a s, of widgets_100]
  obtain s1 e1 where r1: "mouseReleaseEvent widgets_100 ?s ?a = Inr s1"
    and e1: "toOriginal widgets_100 ?s (fst (ev_pos ?a) - 10, snd (ev_pos ?a) - 10) = Inr e1"
    and p1: "end_point s1 = e1"
    and c1: "rectangles s1 =
       (if \<bar>fst e1 - fst (start_point ?s)\<bar> * \<bar>snd e1 - snd (start_point ?s)\<bar> > min_rect_area ?s
        then rectangles ?s @ [toTLBR (start_point ?s) e1] else rectangles ?s)"
    by auto
  from e1 have "e1 = (11, 1)" by (simp add: toOriginal_ignores_drag toOriginal_100)
  with p1 c1 have "end_point s1 = (11, 1) \<and> rectangles s1 = [((0, 0), (11, 1))]"
    by (simp add: loaded_100_fields toTLBR_def)
  with r1 have first: "\<exists>s'. mouseReleaseEvent widgets_100 ?s ?a = Inr s' \<and>
      end_point s' = (11, 1) \<and> rectangles s' = [((0, 0), (11, 1))]" by blast
  from release_commits_iff_area_exceeds_threshold [OF b s, of widgets_100]
  obtain s2 e2 where r2: "mouseReleaseEvent widgets_100 ?s ?b = Inr s2"
    and e2: "toOriginal widgets_100 ?s (fst (ev_pos ?b) - 10, snd (ev_pos ?b) - 10) = Inr e2"
    and p2: "end_point s2 = e2"
    and c2: "rectangles s2 =
       (if \<bar>fst e2 - fst (start_point ?s)\<bar> * \<bar>snd e2 - snd (start_point ?s)\<bar> > min_rect_area ?s
        then rectangles ?s @ [toTLBR (start_point ?s) e2] else rectangles ?s)"
    by auto
  from e2 have "e2 = (10, 1)" by (simp add: toOriginal_ignores_drag toOriginal_100)
  with p2 c2 have "end_point s2 = (10, 1) \<and> rectangles s2 = []"
    by (simp add: loaded_100_fields)
  with r2 have "\<exists>s'. mouseReleaseEvent widgets_100 ?s ?b = Inr s' \<and>
      end_point s' = (10, 1) \<and> rectangles s' = []" by blast
  with first show ?thesis by blast
qed

text \<open>
  C1, as stated, fails: the image of 4 by 4 pixels is shown at 10 percent, where the
  scaled pixmap is empty, during a drag whose start is \<open>(0, 0)\<close> and whose tracked end is
  \<open>(4, 4)\<close>, of area 16, above the threshold 10. The release of the left button raises
  \<open>ZeroDivisionError\<close>: the drag is over, no area has been compared and the committed
  list is still empty.
\<close>

theorem release_on_empty_scaled_pixmap_commits_nothing:
  "is_drawing dragging_4x4_at_10 \<and> min_rect_area dragging_4x4_at_10 = 10 \<and>
   \<bar>fst (end_point dragging_4x4_at_10) - fst (start_point dragging_4x4_at_10)\<bar>
     * \<bar>snd (end_point dragging_4x4_at_10) - snd (start_point dragging_4x4_at_10)\<bar> = 16 \<and>
   mouseReleaseEvent widgets_100 dragging_4x4_at_10 \<lparr>ev_pos = (14, 14), ev_button = LeftButton\<rparr>
     = Inl (ZeroDivisionError, dragging_4x4_at_10\<lparr>is_drawing := False\<rparr>) \<and>
   rectangles (dragging_4x4_at_10\<lparr>is_drawing := False\<rparr>) = []"
  by (simp add: dragging_4x4_at_10_def init_def mouseReleaseEvent_def
      convertToOriginalImageCoords_def Let_def)

subsection \<open>What the handlers leave unchanged\<close>

lemma normalized_toTLBR: "normalized (toTLBR p q)"
  by (auto simp add: normalized_def toTLBR_def Let_def min_def max_def)

lemma mouseMove_frame:
  assumes "mouseMoveEvent w s ev = Inr s'"
  shows "rectangles s' = rectangles s \<and> start_point s' = start_point s \<and>
         is_drawing s' = is_drawing s"
  using assms
  by (auto simp add: mouseMoveEvent_def Let_def split: if_splits sum.splits)

lemma mousePress_frame:
  assumes "mousePressEvent w s ev = Inr s'"
  shows "rectangles s' = rectangles s"
  using assms
  by (auto simp add: mousePressEvent_def updateMessage_def Let_def split: if_splits sum.splits)

lemma mouseRelease_frame:
  assumes "mouseReleaseEvent w s ev = Inr s'"
  shows "rectangles s' = rectangles s \<or>
         rectangles s' = rectangles s @ [toTLBR (start_point s) (end_point s')]"
  using assms
  by (auto simp add: mouseReleaseEvent_def updateMessage_def updateRecord_def Let_def
      split: if_splits sum.splits)

lemma undo_rectangles: "rectangles (undoLastRectangle s) = butlast (rectangles s)"
  by (simp add: undoLastRectangle_def updateRecord_def Let_def)

lemma save_frame: "rectangles (snd (saveRectangles s f)) = rectangles s"
  by (simp add: saveRectangles_def updateMessage_def Let_def split: prod.splits)

lemma displayImage_frame:
  assumes "displayImage s sz = Inr s'"
  shows "rectangles s' = rectangles s \<and> start_point s' = start_point s \<and>
         end_point s' = end_point s \<and> is_drawing s' = is_drawing s"
  using assms by (auto simp add: displayImage_def split: if_splits option.splits)

lemma scaleImage_frame:
  assumes "scaleImage s v sz = Inr s'"
  shows "rectangles s' = rectangles s"
  using assms
  by (auto simp add: scaleImage_def Let_def split: if_splits dest!: displayImage_frame)

lemma show_matrix_frame:
  assumes "show_matrix s m sz = Inr s'"
  shows "rectangles s' = rectangles s \<and> start_point s' = start_point s \<and>
         end_point s' = end_point s \<and> is_drawing s' = is_drawing s"
  using assms
  by (auto simp add: show_matrix_def Let_def dest!: displayImage_frame)

lemma loadImage_matrix_frame:
  assumes "loadImage_matrix s m sz = Inr s'"
  shows "rectangles s' = rectangles s \<and> start_point s' = start_point s \<and>
         end_point s' = end_point s \<and> is_drawing s' = is_drawing s"
  using assms
  by (auto simp add: loadImage_matrix_def Let_def split: sum.splits shape_branch.splits
      dest!: show_matrix_frame)

lemma loadImage_frame:
  assumes "loadImage pf s file sz = Inr s'"
  shows "rectangles s' = rectangles s \<and> start_point s' = start_point s \<and>
         end_point s' = end_point s \<and> is_drawing s' = is_drawing s"
  using assms
  by (auto simp add: loadImage_def split: option.splits sum.splits
      dest!: loadImage_matrix_frame)

lemma list_all_butlast: "list_all P xs \<Longrightarrow> list_all P (butlast xs)"
  by (induction xs) auto

lemma handle_normalized:
  assumes "list_all normalized (rectangles s)" "handle pf s e = Inr s'"
  shows "list_all normalized (rectangles s')"
proof (cases e)
  case (MouseMove w ev)
  with assms mouseMove_frame [of w s ev s'] show ?thesis by simp
next
  case (MousePress w ev)
  with assms mousePress_frame [of w s ev s'] show ?thesis by simp
next
  case (MouseRelease w ev)
  with assms mouseRelease_frame [of w s ev s'] show ?thesis
    by (auto simp add: normalized_toTLBR)
next
  case Undo
  with assms show ?thesis by (auto simp add: undo_rectangles list_all_butlast)
next
  case (Save f)
  with assms show ?thesis by (auto simp add: save_frame)
next
  case (Load fl sz)
  with assms loadImage_frame [of pf s fl sz s'] show ?thesis by simp
next
  case (Scale v sz)
  with assms scaleImage_frame [of s v sz s'] show ?thesis by simp
qed

lemma run_normalized:
  "list_all normalized (rectangles s) \<Longrightarrow> run pf s es = Inr s' \<Longrightarrow>
   list_all normalized (rectangles s')"
proof (induction es arbitrary: s)
  case Nil
  then show ?case by simp
next
  case (Cons e es)
  then show ?case by (auto split: sum.splits dest: handle_normalized)
qed

subsection \<open>Committed rectangles are normalized\<close>

text \<open>
  C2. The committed list is empty at construction; what a release commits is
  \<open>toTLBR\<close> of the two drag points, which is in top-left, bottom-right order whatever the
  direction of the drag; and every event of a session (mouse events, undo, export, load,
  zoom) keeps all committed rectangles normalized: \<open>left \<le> right\<close> and \<open>top \<le> bottom\<close>.
\<close>

theorem committed_rectangles_normalized:
  "list_all normalized (rectangles init) \<and> normalized (toTLBR p q) \<and>
   (list_all normalized (rectangles s) \<longrightarrow> run pyfloat s es = Inr s' \<longrightarrow>
      list_all normalized (rectangles s'))"
  using run_normalized [of s pyfloat es s'] by (simp add: init_def normalized_toTLBR)

theorem committed_rectangles_normalized_witness:
  "\<exists>s'. run float_digit (loaded_100\<lparr>start_point := (50, 50), is_drawing := True\<rparr>)
          [MouseRelease widgets_100 \<lparr>ev_pos = (30, 40), ev_button = LeftButton\<rparr>,
           Save ''rects.txt''] = Inr s' \<and>
        rectangles s' = [((20, 30), (50, 50))] \<and> list_all normalized (rectangles s')"
proof -
  let ?s = "loaded_100\<lparr>start_point := (50, 50), is_drawing := True\<rparr>"
  let ?r = "\<lparr>ev_pos = (30, 40), ev_button = LeftButton\<rparr>"
  let ?es = "[MouseRelease widgets_100 ?r, Save ''rects.txt'']"
  have e: "toOriginal widgets_100 ?s (fst (ev_pos ?r) - 10, snd (ev_pos ?r) - 10) = Inr (20, 30)"
    by (simp add: toOriginal_ignores_drag toOriginal_100)
  have "ev_button ?r = LeftButton" "is_drawing ?s" by simp_all
  from mouseRelease_result [OF this e]
  obtain s1 where s1: "mouseReleaseEvent widgets_100 ?s ?r = Inr s1"
    and c1: "rectangles s1 = [((20, 30), (50, 50))]"
    by (auto simp add: loaded_100_fields toTLBR_def)
  let ?s2 = "snd (saveRectangles s1 ''rects.txt'')"
  from s1 have r: "run float_digit ?s ?es = Inr ?s2" by simp
  from c1 have c: "rectangles ?s2 = [((20, 30), (50, 50))]" by (simp add: save_frame)
  have "list_all normalized (rectangles ?s)" by (simp add: loaded_100_fields)
  with committed_rectangles_normalized [of _ _ ?s float_digit ?es ?s2] r
  have "list_all normalized (rectangles ?s2)" by blast
  with r c show ?thesis by blast
qed

subsection \<open>Undo\<close>

text \<open>
  C7. \<open>undoLastRectangle\<close> removes the last committed rectangle and nothing else: a list
  \<open>rs @ [r]\<close> becomes \<open>rs\<close>, one shorter, with the earlier rectangles unchanged and in
  order; on the empty list the state is unchanged; and the start point, the end point and
  the drawing flag of a drag in progress are never touched.
\<close>

theorem undo_removes_last:
  "rectangles (undoLastRectangle s) = butlast (rectangles s) \<and>
   (rectangles s = [] \<longrightarrow> undoLastRectangle s = s) \<and>
   (rectangles s = rs @ [r] \<longrightarrow>
      rectangles (undoLastRectangle s) = rs \<and>
      length (rectangles (undoLastRectangle s)) = length (rectangles s) - 1) \<and>
   start_point (undoLastRectangle s) = start_point s \<and>
   end_point (undoLastRectangle s) = end_point s \<and>
   is_drawing (undoLastRectangle s) = is_drawing s"
  by (simp add: undoLastRectangle_def updateRecord_def Let_def)

theorem undo_removes_last_witness:
  "rectangles (undoLastRectangle
     (loaded_100\<lparr>start_point := (3, 4), end_point := (7, 9), is_drawing := True,
        rectangles := [((0, 0), (11, 1)), ((20, 30), (50, 50))]\<rparr>)) = [((0, 0), (11, 1))] \<and>
   undoLastRectangle loaded_100 = loaded_100"
  using undo_removes_last [of "loaded_100\<lparr>start_point := (3, 4), end_point := (7, 9),
      is_drawing := True, rectangles := [((0, 0), (11, 1)), ((20, 30), (50, 50))]\<rparr>"
      "[((0, 0), (11, 1))]" "((20, 30), (50, 50))"]
    undo_removes_last [of loaded_100]
  by (simp add: loaded_100_fields)

subsection \<open>Pointer events outside the label\<close>

text \<open>
  C9, as amended. A move or a press whose position is outside the image label raises
  nothing and leaves the start point, the end point, the drawing flag and the committed
  list as they were (the press leaves the whole state unchanged). The release that ends a
  drag on a displayed image is not subject to that test: wherever its position is, inside
  the label or outside, it sets the end point to the converted and cropped release
  position when the scaled pixmap has a width and a height other than 0, and it raises
  \<open>ZeroDivisionError\<close>, with the end point as it was, when the scaled pixmap has the
  width or the height 0.
\<close>

theorem outside_moves_keep_end_release_recomputes:
  "(\<not> imageLabel_contains w (ev_pos ev) \<longrightarrow>
      (\<exists>s'. mouseMoveEvent w s ev = Inr s' \<and> end_point s' = end_point s \<and>
         start_point s' = start_point s \<and> is_drawing s' = is_drawing s \<and>
         rectangles s' = rectangles s) \<and>
      mousePressEvent w s ev = Inr s) \<and>
   (ev_button ev = LeftButton \<longrightarrow> is_drawing s \<longrightarrow> original_img s = Some orig \<longrightarrow>
      scaled_img s = Some sc \<longrightarrow>
      (fst sc \<noteq> 0 \<and> snd sc \<noteq> 0 \<longrightarrow>
         (\<exists>s' e. mouseReleaseEvent w s ev = Inr s' \<and>
            toOriginal w s (fst (ev_pos ev) - 10, snd (ev_pos ev) - 10) = Inr e \<and>
            end_point s' = e)) \<and>
      (fst sc = 0 \<or> snd sc = 0 \<longrightarrow>
         (\<exists>s'. mouseReleaseEvent w s ev = Inl (ZeroDivisionError, s') \<and>
            end_point s' = end_point s \<and> rectangles s' = rectangles s)))"
proof -
  have "\<exists>s' e. mouseReleaseEvent w s ev = Inr s' \<and>
         toOriginal w s (fst (ev_pos ev) - 10, snd (ev_pos ev) - 10) = Inr e \<and>
         end_point s' = e"
    if h: "ev_button ev = LeftButton" "is_drawing s" "original_img s = Some orig"
      "scaled_img s = Some sc" "fst sc \<noteq> 0" "snd sc \<noteq> 0"
  proof -
    from toOriginal_Some [OF h(3-6)]
    obtain e where e: "toOriginal w s (fst (ev_pos ev) - 10, snd (ev_pos ev) - 10) = Inr e"
      by blast
    from mouseRelease_result [OF h(1,2) e] e show ?thesis by blast
  qed
  moreover have "\<exists>s'. mouseReleaseEvent w s ev = Inl (ZeroDivisionError, s') \<and>
         end_point s' = end_point s \<and> rectangles s' = rectangles s"
    if h: "ev_button ev = LeftButton" "is_drawing s" "original_img s = Some orig"
      "scaled_img s = Some sc" "fst sc = 0 \<or> snd sc = 0"
    using mouseRelease_raises [OF h, of w] by simp
  ultimately show ?thesis
    by (simp add: mouseMoveEvent_def mousePressEvent_def)
qed

theorem outside_moves_keep_end_release_recomputes_witness:
  "(\<exists>s'. mouseMoveEvent widgets_100 (loaded_100\<lparr>end_point := (5, 5), is_drawing := True\<rparr>)
            \<lparr>ev_pos = (1000, 1000), ev_button = NoButton\<rparr> = Inr s' \<and>
          end_point s' = (5, 5)) \<and>
   (\<exists>s'. mouseReleaseEvent widgets_100 (loaded_100\<lparr>end_point := (5, 5), is_drawing := True\<rparr>)
            \<lparr>ev_pos = (30, 40), ev_button = LeftButton\<rparr> = Inr s' \<and>
          end_point s' = (20, 30)) \<and>
   (\<exists>s'. mouseReleaseEvent widgets_100 dragging_4x4_at_10
            \<lparr>ev_pos = (30, 40), ev_button = LeftButton\<rparr> = Inl (ZeroDivisionError, s') \<and>
          end_point s' = (4, 4))"
proof -
  let ?s = "loaded_100\<lparr>end_point := (5, 5), is_drawing := True\<rparr>"
  let ?m = "\<lparr>ev_pos = (1000, 1000), ev_button = NoButton\<rparr>"
  let ?r = "\<lparr>ev_pos = (30, 40), ev_button = LeftButton\<rparr>"
  have out: "\<not> imageLabel_contains widgets_100 (ev_pos ?m)"
    by (simp add: imageLabel_contains_def widgets_100_def)
  from outside_moves_keep_end_release_recomputes [of widgets_100 ?m ?s] out
  have a: "\<exists>s'. mouseMoveEvent widgets_100 ?s ?m = Inr s' \<and> end_point s' = (5, 5)"
    by auto
  from outside_moves_keep_end_release_recomputes [of widgets_100 ?r ?s "(100, 100)" "(100, 100)"]
  obtain s' e where r: "mouseReleaseEvent widgets_100 ?s ?r = Inr s'"
    and e: "toOriginal widgets_100 ?s (fst (ev_pos ?r) - 10, snd (ev_pos ?r) - 10) = Inr e"
    and p: "end_point s' = e"
    by (auto simp add: loaded_100_fields)
  from e have "e = (20, 30)" by (simp add: toOriginal_ignores_drag toOriginal_100)
  with r p have b: "\<exists>s'. mouseReleaseEvent widgets_100 ?s ?r = Inr s' \<and> end_point s' = (20, 30)"
    by blast
  from outside_moves_keep_end_release_recomputes
    [of widgets_100 ?r dragging_4x4_at_10 "(4, 4)" "(0, 0)"]
  have c: "\<exists>s'. mouseReleaseEvent widgets_100 dragging_4x4_at_10 ?r = Inl (ZeroDivisionError, s') \<and>
      end_point s' = (4, 4)"
    by (auto simp add: dragging_4x4_at_10_fields)
  from a b c show ?thesis by blast
qed

text \<open>
  C9, as stated, fails for the release event: during a drag whose last end point is
  \<open>(5, 5)\<close>, a release at \<open>(1000, 1000)\<close>, outside the label of 100 by 100 pixels, moves
  the end point to \<open>(100, 100)\<close> and commits the rectangle up to there.
\<close>

theorem release_outside_label_moves_end:
  "\<not> imageLabel_contains widgets_100 (1000, 1000) \<and>
   is_drawing (loaded_100\<lparr>end_point := (5, 5), is_drawing := True\<rparr>) \<and>
   end_point (loaded_100\<lparr>end_point := (5, 5), is_drawing := True\<rparr>) = (5, 5) \<and>
   (\<exists>s'. mouseReleaseEvent widgets_100 (loaded_100\<lparr>end_point := (5, 5), is_drawing := True\<rparr>)
            \<lparr>ev_pos = (1000, 1000), ev_button = LeftButton\<rparr> = Inr s' \<and>
          end_point s' = (100, 100) \<and> rectangles s' = [((0, 0), (100, 100))])"
proof -
  let ?s = "loaded_100\<lparr>end_point := (5, 5), is_drawing := True\<rparr>"
  let ?r = "\<lparr>ev_pos = (1000, 1000), ev_button = LeftButton\<rparr>"
  have e: "toOriginal widgets_100 ?s (fst (ev_pos ?r) - 10, snd (ev_pos ?r) - 10) = Inr (100, 100)"
    by (simp add: toOriginal_ignores_drag toOriginal_100)
  have "ev_button ?r = LeftButton" "is_drawing ?s" by simp_all
  from mouseRelease_result [OF this e]
  have "\<exists>s'. mouseReleaseEvent widgets_100 ?s ?r = Inr s' \<and>
          end_point s' = (100, 100) \<and> rectangles s' = [((0, 0), (100, 100))]"
    by (auto simp add: loaded_100_fields toTLBR_def)
  then show ?thesis by (simp add: imageLabel_contains_def widgets_100_def)
qed

subsection \<open>The two export formats\<close>

lemma rects_data_from_length: "length (rects_data_from k rs) = length rs"
  by (induction rs arbitrary: k) (simp_all add: Let_def)

lemma rects_data_from_nth:
  "i < length rs \<Longrightarrow>
   rects_data_from k rs ! i =
     \<lparr>rect_id = k + i,
      tlbw = [min (snd (fst (rs ! i))) (snd (snd (rs ! i))),
              min (fst (fst (rs ! i))) (fst (snd (rs ! i))),
              max (snd (fst (rs ! i))) (snd (snd (rs ! i))),
              max (fst (fst (rs ! i))) (fst (snd (rs ! i)))]\<rparr>"
proof (induction rs arbitrary: k i)
  case Nil
  then show ?case by simp
next
  case (Cons r rs)
  show ?case
  proof (cases i)
    case 0
    then show ?thesis by (simp add: Let_def)
  next
    case (Suc j)
    with Cons.prems have "j < length rs" by simp
    from Cons.IH [OF this, of "k + 1"] Suc show ?thesis by (simp add: Let_def)
  qed
qed

lemma endswith_append: "endswith (name @ suf) suf"
  by (simp add: endswith_def)

lemma endswith_last: "endswith s suf \<Longrightarrow> suf \<noteq> [] \<Longrightarrow> last s = last suf"
  by (metis append_take_drop_id endswith_def last_appendR)

lemma json_name_not_txt: "\<not> endswith (name @ ''.json'') ''.txt''"
  using endswith_last [of "name @ ''.json''" "''.txt''"] by auto

lemma txt_name_not_json: "\<not> endswith (name @ ''.txt'') ''.json''"
  using endswith_last [of "name @ ''.txt''" "''.json''"] by auto

text \<open>
  C5, as amended. For a committed (normalized) rectangle with top-left corner \<open>(l, t)\<close>
  and bottom-right corner \<open>(r, b)\<close>, the \<open>i\<close>-th record of the structured export has
  the id \<open>i + 1\<close> and the list \<open>[t, l, b, r]\<close>, and the \<open>i\<close>-th line of the line
  export holds the same four integers as the two corners, \<open>l t r b\<close>: the same values,
  each pair in the other order. Both exports have one entry per rectangle, and
  \<open>saveRectangles\<close> writes them under a \<open>.json\<close> and a \<open>.txt\<close> name.
\<close>

theorem json_and_txt_hold_the_same_corners:
  "(i < length rs \<longrightarrow> normalized (rs ! i) \<longrightarrow>
      (\<exists>t l b r. rs ! i = ((l, t), (r, b)) \<and>
         rects_data rs ! i = \<lparr>rect_id = i + 1, tlbw = [t, l, b, r]\<rparr> \<and>
         txt_lines rs ! i = write_line l t r b)) \<and>
   length (rects_data rs) = length rs \<and> length (txt_lines rs) = length rs \<and>
   fst (saveRectangles s (name @ ''.json'')) =
     [(name @ ''.json'', JsonRects (rects_data (rectangles s)))] \<and>
   fst (saveRectangles s (name @ ''.txt'')) =
     [(name @ ''.txt'', TextFile (concat (txt_lines (rectangles s))))]"
proof -
  have "\<exists>t l b r. rs ! i = ((l, t), (r, b)) \<and>
         rects_data rs ! i = \<lparr>rect_id = i + 1, tlbw = [t, l, b, r]\<rparr> \<and>
         txt_lines rs ! i = write_line l t r b"
    if i: "i < length rs" and n: "normalized (rs ! i)"
  proof -
    obtain l t r b where r: "rs ! i = ((l, t), (r, b))" by (metis surj_pair)
    with n have "l \<le> r" "t \<le> b" by (simp_all add: normalized_def)
    with r i rects_data_from_nth [OF i, of 1] show ?thesis
      by (simp add: rects_data_def txt_lines_def txt_line_def)
  qed
  moreover have "fst (saveRectangles s (name @ ''.json'')) =
     [(name @ ''.json'', JsonRects (rects_data (rectangles s)))]"
    using endswith_append [of name "''.json''"] json_name_not_txt [of name]
    by (simp add: saveRectangles_def)
  moreover have "fst (saveRectangles s (name @ ''.txt'')) =
     [(name @ ''.txt'', TextFile (concat (txt_lines (rectangles s))))]"
    using endswith_append [of name "''.txt''"] txt_name_not_json [of name]
    by (simp add: saveRectangles_def)
  ultimately show ?thesis
    by (simp add: rects_data_def rects_data_from_length txt_lines_def)
qed

lemma str_int_10: "str_int 10 = ''10''" by code_simp
lemma str_int_20: "str_int 20 = ''20''" by code_simp
lemma str_int_25: "str_int 25 = ''25''" by code_simp

theorem json_and_txt_hold_the_same_corners_witness:
  "rects_data [((10, 10), (25, 20))] ! 0 = \<lparr>rect_id = 1, tlbw = [10, 10, 20, 25]\<rparr> \<and>
   txt_lines [((10, 10), (25, 20))] ! 0 = write_line 10 10 25 20"
  using json_and_txt_hold_the_same_corners [of 0 "[((10, 10), (25, 20))]"]
  by (simp add: normalized_def)

text \<open>
  C5, as stated, fails: for the rectangle from \<open>(10, 10)\<close> to \<open>(25, 20)\<close> the structured
  export holds \<open>[10, 10, 20, 25]\<close> and the line export writes \<open>10 10 25 20\<close>, which is
  not the line of the four integers of the record in their order.
\<close>

theorem json_and_txt_differ_in_order:
  "tlbw (rects_data [((10, 10), (25, 20))] ! 0) = [10, 10, 20, 25] \<and>
   txt_lines [((10, 10), (25, 20))] ! 0 = ''10 10 25 20'' @ [CHR 0x0A] \<and>
   write_line 10 10 20 25 = ''10 10 20 25'' @ [CHR 0x0A] \<and>
   txt_lines [((10, 10), (25, 20))] ! 0 \<noteq> write_line 10 10 20 25"
  by (simp add: rects_data_def txt_lines_def txt_line_def write_line_def Let_def
      str_int_10 str_int_20 str_int_25)

subsection \<open>Normalizing and promoting the matrix\<close>

lemma f_minimum_Finite: "f_minimum (Finite a) (Finite b) = Finite (min a b)"
  by (simp add: f_minimum_def min_def)

lemma f_maximum_Finite: "f_maximum (Finite a) (Finite b) = Finite (max a b)"
  by (simp add: f_maximum_def max_def)

lemma fold_minimum_Finite:
  "fold (\<lambda>v acc. f_minimum acc v) (map Finite qs) (Finite q) = Finite (fold min qs q)"
  by (induction qs arbitrary: q) (simp_all add: f_minimum_Finite min.commute)

lemma fold_maximum_Finite:
  "fold (\<lambda>v acc. f_maximum acc v) (map Finite qs) (Finite q) = Finite (fold max qs q)"
  by (induction qs arbitrary: q) (simp_all add: f_maximum_Finite max.commute)

lemma np_min_Cons: "np_min (map Finite (q # qs)) = Inr (Finite (Min (set (q # qs))))"
  by (simp only: np_min_def list.map list.case fold_minimum_Finite Min.set_eq_fold)

lemma np_min_Min:
  assumes "qs \<noteq> []"
  shows "np_min (map Finite qs) = Inr (Finite (Min (set qs)))"
proof -
  from assms obtain q qs' where "qs = q # qs'" by (cases qs) auto
  then show ?thesis by (simp only: np_min_Cons)
qed

lemma np_max_Cons: "np_max (map Finite (q # qs)) = Inr (Finite (Max (set (q # qs))))"
  by (simp only: np_max_def list.map list.case fold_maximum_Finite Max.set_eq_fold)

lemma np_max_Max:
  assumes "qs \<noteq> []"
  shows "np_max (map Finite qs) = Inr (Finite (Max (set qs)))"
proof -
  from assms obtain q qs' where "qs = q # qs'" by (cases qs) auto
  then show ?thesis by (simp only: np_max_Cons)
qed

lemma np_min_max_returns:
  "xs \<noteq> [] \<Longrightarrow> \<exists>mn mx. np_min xs = Inr mn \<and> np_max xs = Inr mx"
  by (cases xs) (simp_all add: np_min_def np_max_def)

lemma zero_channels_from_repeat3:
  "k mod 3 = 0 \<Longrightarrow>
   zero_channels_from 3 k (concat (map (replicate 3) xs)) =
     concat (map (\<lambda>v. [v, Finite 0, Finite 0]) xs)"
proof (induction xs arbitrary: k)
  case Nil
  then show ?case by simp
next
  case (Cons x xs)
  from Cons.prems have m: "Suc k mod 3 \<noteq> 0" "Suc (Suc k) mod 3 \<noteq> 0"
    "Suc (Suc (Suc k)) mod 3 = 0"
    by presburger+
  have r: "replicate 3 x = [x, x, x]" by (simp add: numeral_3_eq_3)
  from Cons.IH [OF m(3)] Cons.prems m(1,2) show ?case
    by (simp add: r)
qed

lemma promote_2d:
  "shape m = [h, w] \<Longrightarrow>
   zero_channels (repeat3_newaxis m) =
     \<lparr>shape = [h, w, 3], flat = concat (map (\<lambda>v. [v, Finite 0, Finite 0]) (flat m))\<rparr>"
  by (simp add: zero_channels_def repeat3_newaxis_def zero_channels_from_repeat3)

lemma show_matrix_returns:
  "\<exists>s'. show_matrix s m scaled = Inr s' \<and>
     meta_img s' = Some \<lparr>shape = shape m, flat = map (\<lambda>v. astype_uint8 (times_255 v)) (flat m)\<rparr> \<and>
     original_img s' = Some (int (shape m ! 1), int (shape m ! 0))"
  by (simp add: show_matrix_def displayImage_def Let_def)

lemma zero_pixel: "astype_uint8 (float64_round 0) = 0"
  by (simp add: float64_round_def int_of_float_def)

lemma loadImage_matrix_2d:
  assumes "shape mat = [h, w]" "np_min (flat mat) = Inr mn" "np_max (flat mat) = Inr mx"
  shows "\<exists>s'. loadImage_matrix s mat scaled = Inr s' \<and>
     meta_img s' = Some \<lparr>shape = [h, w, 3],
       flat = concat (map (\<lambda>v. [astype_uint8 (times_255 (f_div (f_sub v mn) (f_sub mx mn))),
                 0, 0]) (flat mat))\<rparr> \<and>
     original_img s' = Some (int w, int h)"
proof -
  let ?n = "normalize mn mx mat"
  have sh: "shape ?n = [h, w]" using assms(1) by (simp add: normalize_def)
  from show_matrix_returns [of s "zero_channels (repeat3_newaxis ?n)" scaled]
  obtain s' where s': "show_matrix s (zero_channels (repeat3_newaxis ?n)) scaled = Inr s'"
    and m: "meta_img s' = Some \<lparr>shape = shape (zero_channels (repeat3_newaxis ?n)),
         flat = map (\<lambda>v. astype_uint8 (times_255 v)) (flat (zero_channels (repeat3_newaxis ?n)))\<rparr>"
    and o: "original_img s' = Some (int (shape (zero_channels (repeat3_newaxis ?n)) ! 1),
         int (shape (zero_channels (repeat3_newaxis ?n)) ! 0))"
    by blast
  have f: "flat ?n = map (\<lambda>v. f_div (f_sub v mn) (f_sub mx mn)) (flat mat)"
    by (simp add: normalize_def)
  have l: "loadImage_matrix s mat scaled = Inr s'"
    using assms s' sh
    by (simp add: loadImage_matrix_def branch_of_def Let_def)
  from m have "meta_img s' = Some \<lparr>shape = [h, w, 3],
       flat = concat (map (\<lambda>v. [astype_uint8 (times_255 (f_div (f_sub v mn) (f_sub mx mn))),
                 0, 0]) (flat mat))\<rparr>"
    by (simp add: promote_2d [OF sh] f map_concat comp_def zero_pixel)
  moreover from o have "original_img s' = Some (int w, int h)"
    by (simp add: promote_2d [OF sh])
  ultimately show ?thesis using l by blast
qed

lemma loadImage_matrix_2d_returns:
  assumes "shape mat = [h, w]" "flat mat \<noteq> []"
  shows "\<exists>s'. loadImage_matrix s mat scaled = Inr s'"
proof -
  from np_min_max_returns [OF assms(2)]
  obtain mn mx where "np_min (flat mat) = Inr mn" "np_max (flat mat) = Inr mx" by blast
  from loadImage_matrix_2d [OF assms(1) this, of s scaled] show ?thesis by blast
qed

lemma split_row_0:
  "split (ascii ''0 0 0 0\<newline>'') = [ascii ''0'', ascii ''0'', ascii ''0'', ascii ''0'']"
  by (simp add: split_def ascii_def isspace_def)

lemma split_row_5:
  "split (ascii ''0 5 5 0\<newline>'') = [ascii ''0'', ascii ''5'', ascii ''5'', ascii ''0'']"
  by (simp add: split_def ascii_def isspace_def)

text \<open>A no-break space, U+00A0, separates two tokens as a space does.\<close>

lemma split_no_break_space: "split (ascii ''0'' @ [0xA0] @ ascii ''5'') = [ascii ''0'', ascii ''5'']"
  by (simp add: split_def ascii_def isspace_def)

lemma load_matrix_4x4:
  assumes "pf (ascii ''0'') = Some (Finite 0)" "pf (ascii ''5'') = Some (Finite 5)"
  shows "load_matrix_from_txt pf file_4x4 =
     Inr \<lparr>shape = [4, 4],
          flat = map Finite [0, 0, 0, 0, 0, 5, 5, 0, 0, 5, 5, 0, 0, 0, 0, 0]\<rparr>"
  using assms
  by (simp add: load_matrix_from_txt_def file_4x4_def split_row_0 split_row_5 np_array_def)

lemma float_digit_0_5:
  "float_digit (ascii ''0'') = Some (Finite 0)" "float_digit (ascii ''5'') = Some (Finite 5)"
  by (simp_all add: float_digit_def ascii_def)

lemma flat_4x4_min: "Min (set [0, 0, 0, 0, 0, 5, 5, 0, 0, 5, 5, 0, 0, 0, 0, 0 :: rat]) = 0"
  by simp

lemma flat_4x4_max: "Max (set [0, 0, 0, 0, 0, 5, 5, 0, 0, 5, 5, 0, 0, 0, 0, 0 :: rat]) = 5"
  by simp

lemma np_min_4x4:
  "np_min (map Finite [0, 0, 0, 0, 0, 5, 5, 0, 0, 5, 5, 0, 0, 0, 0, 0]) = Inr (Finite 0)"
  using np_min_Min [of "[0, 0, 0, 0, 0, 5, 5, 0, 0, 5, 5, 0, 0, 0, 0, 0]"]
  by (simp only: flat_4x4_min) simp

lemma np_max_4x4:
  "np_max (map Finite [0, 0, 0, 0, 0, 5, 5, 0, 0, 5, 5, 0, 0, 0, 0, 0]) = Inr (Finite 5)"
  using np_max_Max [of "[0, 0, 0, 0, 0, 5, 5, 0, 0, 5, 5, 0, 0, 0, 0, 0]"]
  by (simp only: flat_4x4_max) simp



lemma pixel_rounds_below_102:
  "float64_round (1 / 10) = Finite (3602879701896397 / 36028797018963968) \<and>
   float64_round (13 / 10) = Finite (5854679515581645 / 4503599627370496) \<and>
   float64_round (31 / 10) = Finite (6980579422424269 / 2251799813685248) \<and>
   astype_uint8 (times_255
     (f_div (f_sub (Finite (5854679515581645 / 4503599627370496))
                   (Finite (3602879701896397 / 36028797018963968)))
            (f_sub (Finite (6980579422424269 / 2251799813685248))
                   (Finite (3602879701896397 / 36028797018963968))))) = 101"
  by code_simp



subsection \<open>A load and the session\<close>

lemma load_4x4_example:
  "\<exists>s'. loadImage float_digit s (Some file_4x4) scaled = Inr s' \<and>
     original_img s' = Some (4, 4)"
proof -
  let ?m = "\<lparr>shape = [4, 4],
     flat = map Finite [0, 0, 0, 0, 0, 5, 5, 0, 0, 5, 5, 0, 0, 0, 0, 0]\<rparr>"
  have sh: "shape ?m = [4, 4]" by simp
  have mn: "np_min (flat ?m) = Inr (Finite 0)" using np_min_4x4 by simp
  have mx: "np_max (flat ?m) = Inr (Finite 5)" using np_max_4x4 by simp
  from loadImage_matrix_2d [OF sh mn mx, of s scaled] load_matrix_4x4 [OF float_digit_0_5]
  show ?thesis by (auto simp add: loadImage_def)
qed

text \<open>
  C4, as amended. The committed list is empty at construction. A load that completes
  leaves the committed list, the start point, the end point and the drawing flag as they
  were before the load.
\<close>

theorem load_keeps_session:
  "rectangles init = [] \<and>
   (loadImage pyfloat s fl scaled = Inr s' \<longrightarrow>
      rectangles s' = rectangles s \<and> start_point s' = start_point s \<and>
      end_point s' = end_point s \<and> is_drawing s' = is_drawing s)"
  using loadImage_frame [of pyfloat s fl scaled s'] by (simp add: init_def)

theorem load_keeps_session_witness:
  "\<exists>s'. loadImage float_digit (loaded_100\<lparr>rectangles := [((10, 10), (25, 20))]\<rparr>)
           (Some file_4x4) (4, 4) = Inr s' \<and>
        rectangles s' = [((10, 10), (25, 20))]"
proof -
  let ?s = "loaded_100\<lparr>rectangles := [((10, 10), (25, 20))]\<rparr>"
  from load_4x4_example [of ?s "(4, 4)"] obtain s' where
    l: "loadImage float_digit ?s (Some file_4x4) (4, 4) = Inr s'"
    by blast
  from load_keeps_session [of float_digit ?s "Some file_4x4" "(4, 4)" s'] l
  have "rectangles s' = [((10, 10), (25, 20))]" by simp
  with l show ?thesis by blast
qed

text \<open>
  C4, as stated, fails: a session with the committed rectangle from \<open>(10, 10)\<close> to
  \<open>(25, 20)\<close> loads the file of the 4 by 4 matrix, the load completes with the new image
  of 4 by 4 pixels, and the rectangle is still committed.
\<close>

theorem load_does_not_clear_rectangles:
  "\<exists>s'. loadImage float_digit (loaded_100\<lparr>rectangles := [((10, 10), (25, 20))]\<rparr>)
           (Some file_4x4) (4, 4) = Inr s' \<and>
        rectangles s' = [((10, 10), (25, 20))] \<and> original_img s' = Some (4, 4)"
proof -
  let ?s = "loaded_100\<lparr>rectangles := [((10, 10), (25, 20))]\<rparr>"
  from load_4x4_example [of ?s "(4, 4)"] obtain s' where
    l: "loadImage float_digit ?s (Some file_4x4) (4, 4) = Inr s'"
    and o: "original_img s' = Some (4, 4)"
    by blast
  from loadImage_frame [OF l] have "rectangles s' = [((10, 10), (25, 20))]" by simp
  with l o show ?thesis by blast
qed

subsection \<open>What a matrix file can load\<close>

lemma float_row_numbers:
  "list_all (\<lambda>t. pf t \<noteq> None) ts \<Longrightarrow> float_row pf ts = Inr (map (\<lambda>t. the (pf t)) ts)"
  by (induction ts) auto

lemma float_rows_numbers:
  "list_all (\<lambda>l. list_all (\<lambda>t. pf t \<noteq> None) (split l)) ls \<Longrightarrow>
   float_rows pf ls = Inr (map (\<lambda>l. map (\<lambda>t. the (pf t)) (split l)) ls)"
  by (induction ls) (auto simp add: float_row_numbers)

lemma float_row_error: "float_row pf ts = Inl e \<Longrightarrow> e = ValueError"
  by (induction ts arbitrary: e) (auto split: option.splits sum.splits)

lemma float_rows_error: "float_rows pf ls = Inl e \<Longrightarrow> e = ValueError"
  by (induction ls arbitrary: e) (auto split: sum.splits dest: float_row_error)

lemma np_array_error: "np_array rows = Inl e \<Longrightarrow> e = ValueError"
  by (auto simp add: np_array_def split: list.splits if_splits)

lemma np_array_shape:
  "np_array rows = Inr m \<Longrightarrow>
   (shape m = [0] \<and> flat m = []) \<or> (\<exists>n k. shape m = [n, k])"
  by (auto simp add: np_array_def split: list.splits if_splits)

lemma load_matrix_error: "load_matrix_from_txt pf ls = Inl e \<Longrightarrow> e = ValueError"
  by (auto simp add: load_matrix_from_txt_def split: sum.splits
      dest: float_rows_error np_array_error)

lemma load_matrix_shape:
  "load_matrix_from_txt pf ls = Inr m \<Longrightarrow>
   (shape m = [0] \<and> flat m = []) \<or> (\<exists>n k. shape m = [n, k])"
  by (auto simp add: load_matrix_from_txt_def split: sum.splits dest: np_array_shape)

lemma load_matrix_well_formed:
  assumes "well_formed pf (l # ls)"
  shows "\<exists>m. load_matrix_from_txt pf (l # ls) = Inr m \<and>
           shape m = [length (l # ls), length (split l)]"
proof -
  let ?row = "\<lambda>l. map (\<lambda>t. the (pf t)) (split l)"
  from assms have n: "list_all (\<lambda>l. list_all (\<lambda>t. pf t \<noteq> None) (split l)) (l # ls)"
    and e: "list_all (\<lambda>l'. length (split l') = length (split l)) ls" by simp_all
  from float_rows_numbers [OF n] have r: "float_rows pf (l # ls) = Inr (map ?row (l # ls))" .
  from e have "list_all (\<lambda>r'. length r' = length (?row l)) (map ?row ls)"
    by (simp add: list_all_iff)
  then have "np_array (map ?row (l # ls)) =
      Inr \<lparr>shape = [length (l # ls), length (split l)], flat = concat (map ?row (l # ls))\<rparr>"
    by (simp add: np_array_def)
  with r show ?thesis by (simp add: load_matrix_from_txt_def)
qed

lemma loadImage_matrix_error:
  assumes "(shape m = [0] \<and> flat m = []) \<or> (\<exists>n k. shape m = [n, k])"
    and "loadImage_matrix s m scaled = Inl (e, s')"
  shows "e = ValueError \<and> s' = s"
proof (cases "flat m")
  case Nil
  with assms(2) show ?thesis by (simp add: loadImage_matrix_def np_min_def)
next
  case (Cons x xs)
  with assms(1) obtain n k where sh: "shape m = [n, k]" by auto
  from Cons have "flat m \<noteq> []" by simp
  from loadImage_matrix_2d_returns [OF sh this, of s scaled] assms(2) show ?thesis by auto
qed

lemma loadImage_error:
  assumes "loadImage pf s fl scaled = Inl (e, s')"
  shows "e = ValueError \<and> s' = s"
proof (cases fl)
  case None
  with assms show ?thesis by (simp add: loadImage_def)
next
  case (Some ls)
  show ?thesis
  proof (cases "load_matrix_from_txt pf ls")
    case (Inl x)
    with Some assms load_matrix_error [of pf ls x] show ?thesis by (simp add: loadImage_def)
  next
    case (Inr m)
    with Some assms have "loadImage_matrix s m scaled = Inl (e, s')" by (simp add: loadImage_def)
    from loadImage_matrix_error [OF load_matrix_shape [OF Inr] this] show ?thesis .
  qed
qed

subsection \<open>Matrices of an invalid shape\<close>






subsection \<open>The branch that a file takes\<close>

text \<open>
  C10, as amended. For every well-formed file with at least one line,
  \<open>load_matrix_from_txt\<close> returns a 2-D matrix of as many rows as lines and as many
  columns as the first line has tokens, for which the load takes the 2-D promotion
  branch. For every file, the matrix returned is never one for the 3-D single-channel or
  the 3-channel passthrough branch; when it has at least one element the load takes the
  2-D promotion branch and completes; and the only exception a load raises is
  \<open>ValueError\<close>, with the state unchanged, so the invalid-shape branch is never reached
  from a file either.
\<close>

theorem file_load_takes_only_the_2d_branch:
  "(well_formed pyfloat lines \<longrightarrow> lines \<noteq> [] \<longrightarrow>
      (\<exists>mat. load_matrix_from_txt pyfloat lines = Inr mat \<and>
         shape mat = [length lines, length (split (hd lines))] \<and>
         branch_of (shape mat) = Promote2D)) \<and>
   (load_matrix_from_txt pyfloat lines = Inr mat \<longrightarrow>
      branch_of (shape mat) \<noteq> Promote3D \<and> branch_of (shape mat) \<noteq> Passthrough \<and>
      (flat mat \<noteq> [] \<longrightarrow>
         branch_of (shape mat) = Promote2D \<and>
         (\<exists>s'. loadImage pyfloat s (Some lines) scaled = Inr s'))) \<and>
   (loadImage pyfloat s fl scaled = Inl (e, s') \<longrightarrow> e = ValueError \<and> s' = s)"
proof -
  have a: "\<exists>mat. load_matrix_from_txt pyfloat lines = Inr mat \<and>
         shape mat = [length lines, length (split (hd lines))] \<and>
         branch_of (shape mat) = Promote2D"
    if "well_formed pyfloat lines" "lines \<noteq> []"
  proof -
    from that(2) obtain l ls where c: "lines = l # ls" by (cases lines) auto
    from load_matrix_well_formed [of pyfloat l ls] that(1) c
    obtain m where m: "load_matrix_from_txt pyfloat lines = Inr m"
      and sh: "shape m = [length lines, length (split (hd lines))]" by auto
    from sh have "branch_of (shape m) = Promote2D" by (simp add: branch_of_def)
    with m sh show ?thesis by blast
  qed
  have b: "branch_of (shape mat) \<noteq> Promote3D \<and> branch_of (shape mat) \<noteq> Passthrough \<and>
      (flat mat \<noteq> [] \<longrightarrow>
         branch_of (shape mat) = Promote2D \<and>
         (\<exists>s'. loadImage pyfloat s (Some lines) scaled = Inr s'))"
    if l: "load_matrix_from_txt pyfloat lines = Inr mat"
  proof -
    from load_matrix_shape [OF l] consider "shape mat = [0]" "flat mat = []"
      | n k where "shape mat = [n, k]" by auto
    then show ?thesis
    proof cases
      case 1
      then show ?thesis by (simp add: branch_of_def)
    next
      case 2
      have "\<exists>s'. loadImage pyfloat s (Some lines) scaled = Inr s'" if "flat mat \<noteq> []"
        using loadImage_matrix_2d_returns [OF 2 that, of s scaled] l
        by (auto simp add: loadImage_def)
      with 2 show ?thesis by (simp add: branch_of_def)
    qed
  qed
  from a b loadImage_error [of pyfloat s fl scaled e s'] show ?thesis by blast
qed

lemma well_formed_4x4: "well_formed float_digit file_4x4"
  by (simp add: file_4x4_def split_row_0 split_row_5 float_digit_0_5)

lemma split_hd_4x4: "length (split (hd file_4x4)) = 4"
  by (simp add: file_4x4_def split_row_0)

theorem file_load_takes_only_the_2d_branch_witness:
  "\<exists>mat. load_matrix_from_txt float_digit file_4x4 = Inr mat \<and> shape mat = [4, 4] \<and>
     branch_of (shape mat) = Promote2D"
proof -
  have "file_4x4 \<noteq> []" by (simp add: file_4x4_def)
  with file_load_takes_only_the_2d_branch [of float_digit file_4x4] well_formed_4x4
  obtain mat where "load_matrix_from_txt float_digit file_4x4 = Inr mat"
    and "shape mat = [length file_4x4, length (split (hd file_4x4))]"
    and "branch_of (shape mat) = Promote2D" by blast
  moreover have "length file_4x4 = 4" by (simp add: file_4x4_def)
  ultimately show ?thesis by (simp add: split_hd_4x4)
qed

text \<open>
  C10, as stated, fails at the empty file, which is well formed (it has no line): the
  matrix returned has the shape \<open>(0,)\<close>, one axis, and the load raises \<open>ValueError\<close> at
  \<open>mat.min()\<close> before any branch on the shape. A file of one blank line, well formed too,
  gives a 2-D matrix of shape \<open>(1, 0)\<close>, and the load raises at the same place instead of
  taking the 2-D branch.
\<close>

lemma split_newline: "split (ascii ''\<newline>'') = []"
  by (simp add: split_def ascii_def isspace_def)

theorem empty_file_is_not_2d:
  "well_formed float_digit [] \<and>
   load_matrix_from_txt float_digit [] = Inr \<lparr>shape = [0], flat = []\<rparr> \<and>
   length (shape \<lparr>shape = [0], flat = [] :: float64 list\<rparr>) = 1 \<and>
   branch_of [0] = InvalidShape \<and>
   loadImage float_digit loaded_100 (Some []) (4, 4) = Inl (ValueError, loaded_100) \<and>
   well_formed float_digit [ascii ''\<newline>''] \<and>
   load_matrix_from_txt float_digit [ascii ''\<newline>''] = Inr \<lparr>shape = [1, 0], flat = []\<rparr> \<and>
   loadImage float_digit loaded_100 (Some [ascii ''\<newline>'']) (4, 4)
     = Inl (ValueError, loaded_100)"
  by (simp add: load_matrix_from_txt_def np_array_def branch_of_def loadImage_def
      loadImage_matrix_def np_min_def split_newline)

end
